theory Spec2Isabelle
  imports Main "HOL-Library.Log_Nat" "HOL-Library.Product_Lexorder"
begin

section \<open>JavaScript numbers\<close>

text \<open>
  Every amount the handlers of \<^verbatim>\<open>server.js\<close> compute with goes through \<^verbatim>\<open>Number(...)\<close>:
  it is an IEEE 754 binary64 value. A finite double is represented by the rational it
  denotes; the two infinities and NaN are separate constructors. The sign of zero is not
  represented: the handlers only add, subtract, compare and test truthiness, and none of
  these tells \<open>-0\<close> from \<open>0\<close>.
\<close>

datatype number = Fin rat | PInf | NInf | NaN

text \<open>\<open>pow2 k\<close> is \<open>2\<^sup>k\<close> for an integer exponent of either sign.\<close>

definition pow2 :: "int \<Rightarrow> rat" where
  "pow2 k = (if 0 \<le> k then 2 ^ nat k else 1 / 2 ^ nat (- k))"

text \<open>Rounding to the nearest integer, ties to the even one.\<close>

definition round_half_even :: "rat \<Rightarrow> int" where
  "round_half_even y =
     (let f = \<lfloor>y\<rfloor>; d = y - of_int f
      in if d < 1 / 2 then f else if 1 / 2 < d then f + 1 else if even f then f else f + 1)"

text \<open>The binary exponent of a positive rational: the \<open>e\<close> with \<open>2\<^sup>e \<le> x < 2\<^sup>e\<^sup>+\<^sup>1\<close>.\<close>

definition floor_log2 :: "rat \<Rightarrow> int" where
  "floor_log2 x = (if 1 \<le> x then bitlen \<lfloor>x\<rfloor> - 1 else - bitlen (\<lceil>1 / x\<rceil> - 1))"

text \<open>
  \<open>rnd x\<close> is the double nearest to the rational \<open>x\<close> (round to nearest, ties to even):
  53 significant bits, exponents from \<open>-1022\<close> (below it the spacing stays \<open>2\<^sup>-\<^sup>1\<^sup>0\<^sup>7\<^sup>4\<close>, the
  subnormal range) to \<open>1023\<close>; a result that reaches \<open>2\<^sup>1\<^sup>0\<^sup>2\<^sup>4\<close> overflows to an infinity.
\<close>

definition rnd :: "rat \<Rightarrow> number" where
  "rnd x =
     (if x = 0 then Fin 0
      else let a = \<bar>x\<bar>;
               e = max (floor_log2 a) (- 1022);
               q = pow2 (e - 52);
               r = of_int (round_half_even (a / q)) * q
           in if 2 ^ 1024 \<le> r then (if 0 < x then PInf else NInf)
              else Fin (if 0 < x then r else - r))"

text \<open>A rational is a double when it lies on the grid of its own binade and is in range.\<close>

definition is_double :: "rat \<Rightarrow> bool" where
  "is_double x =
     (x = 0 \<or>
      (let a = \<bar>x\<bar>; q = pow2 (max (floor_log2 a) (- 1022) - 52)
       in a / q = of_int \<lfloor>a / q\<rfloor> \<and> a < 2 ^ 1024))"

text \<open>The operators \<^verbatim>\<open>+\<close>, \<^verbatim>\<open>-\<close>, \<^verbatim>\<open><\<close> and \<^verbatim>\<open><=\<close> on Numbers, and \<^verbatim>\<open>!x\<close> for a Number.\<close>

fun num_add :: "number \<Rightarrow> number \<Rightarrow> number" where
  "num_add NaN _ = NaN"
| "num_add _ NaN = NaN"
| "num_add PInf NInf = NaN"
| "num_add NInf PInf = NaN"
| "num_add PInf _ = PInf"
| "num_add _ PInf = PInf"
| "num_add NInf _ = NInf"
| "num_add _ NInf = NInf"
| "num_add (Fin x) (Fin y) = rnd (x + y)"

fun num_neg :: "number \<Rightarrow> number" where
  "num_neg (Fin x) = Fin (- x)"
| "num_neg PInf = NInf"
| "num_neg NInf = PInf"
| "num_neg NaN = NaN"

definition num_sub :: "number \<Rightarrow> number \<Rightarrow> number" where
  "num_sub a b = num_add a (num_neg b)"

fun num_less :: "number \<Rightarrow> number \<Rightarrow> bool" where
  "num_less NaN _ = False"
| "num_less _ NaN = False"
| "num_less (Fin x) (Fin y) = (x < y)"
| "num_less NInf NInf = False"
| "num_less NInf _ = True"
| "num_less _ NInf = False"
| "num_less PInf _ = False"
| "num_less _ PInf = True"

fun num_le :: "number \<Rightarrow> number \<Rightarrow> bool" where
  "num_le NaN _ = False"
| "num_le _ NaN = False"
| "num_le (Fin x) (Fin y) = (x \<le> y)"
| "num_le NInf _ = True"
| "num_le _ NInf = False"
| "num_le _ PInf = True"
| "num_le PInf _ = False"

fun num_truthy :: "number \<Rightarrow> bool" where
  "num_truthy (Fin x) = (x \<noteq> 0)"
| "num_truthy NaN = False"
| "num_truthy _ = True"


section \<open>Values crossing the HTTP and store boundaries\<close>

text \<open>
  Request bodies are JSON. A text field of a body (\<^verbatim>\<open>email\<close>, \<^verbatim>\<open>password\<close>, \<^verbatim>\<open>full_name\<close>,
  \<^verbatim>\<open>home\<close>, \<^verbatim>\<open>away\<close>) is modelled as \<open>string option\<close>, falsy when it is missing or empty.
  A numeric field (\<^verbatim>\<open>amount\<close>, \<^verbatim>\<open>stake\<close>, \<^verbatim>\<open>odds\<close>, \<^verbatim>\<open>id\<close>, \<^verbatim>\<open>betId\<close>, \<^verbatim>\<open>match_id\<close>) is a
  \<open>jsval option\<close>: a JSON number, string or boolean, or \<open>None\<close> for a field that is
  \<^verbatim>\<open>undefined\<close> or \<^verbatim>\<open>null\<close> (the handlers test every such field with \<^verbatim>\<open>!x\<close> before any
  other use, both are falsy, and the driver sends both as \<^verbatim>\<open>NULL\<close>). Arrays and objects
  in these positions are outside the model; they are always truthy.
\<close>

datatype jsval = VNum number | VStr string | VBool bool

text \<open>\<^verbatim>\<open>!x\<close> is the negation of the following.\<close>

fun js_truthy :: "jsval \<Rightarrow> bool" where
  "js_truthy (VNum n) = num_truthy n"
| "js_truthy (VStr s) = (s \<noteq> [])"
| "js_truthy (VBool b) = b"

definition truthy :: "jsval option \<Rightarrow> bool" where
  "truthy v = (case v of None \<Rightarrow> False | Some x \<Rightarrow> js_truthy x)"

text \<open>
  The driver sends a Number as its decimal text. For an \<^verbatim>\<open>INTEGER\<close> column the store
  parses that text as a 32-bit integer and raises an error for anything else
  (a fraction, an infinity, NaN, a value out of range).
\<close>

definition pg_int4 :: "number \<Rightarrow> int option" where
  "pg_int4 n =
     (case n of
        Fin x \<Rightarrow>
          if x = of_int \<lfloor>x\<rfloor> \<and> - 2147483648 \<le> \<lfloor>x\<rfloor> \<and> \<lfloor>x\<rfloor> \<le> 2147483647
          then Some \<lfloor>x\<rfloor> else None
      | _ \<Rightarrow> None)"

text \<open>
  Response bodies. \<open>JNum\<close> is a Number handed to \<^verbatim>\<open>res.json\<close> (which writes NaN and the
  infinities as \<^verbatim>\<open>null\<close>; the model keeps the Number), \<open>JNumeric\<close> the text of a
  \<^verbatim>\<open>NUMERIC\<close> column as the driver returns it (a string holding the decimal), \<open>JTime\<close> a
  timestamp, \<open>JToken\<close> a signed token with its (readable) payload.
\<close>

datatype json =
    JNull
  | JBool bool
  | JNum number
  | JStr string
  | JNumeric number
  | JTime nat
  | JToken json
  | JArr "json list"
  | JObj "(string \<times> json) list"

datatype response = Json nat json | Text nat string

definition error_json :: "nat \<Rightarrow> string \<Rightarrow> response" where
  "error_json code msg = Json code (JObj [(''error'', JStr msg)])"

definition server_error :: response where
  "server_error = error_json 500 ''Server error''"

fun status_of :: "response \<Rightarrow> nat" where
  "status_of (Json code _) = code"
| "status_of (Text code _) = code"

text \<open>Every field name that occurs in a JSON value, at any depth (token payloads included).\<close>

fun json_keys :: "json \<Rightarrow> string list" where
  "json_keys (JObj kvs) = map fst kvs @ concat (map (\<lambda>kv. json_keys (snd kv)) kvs)"
| "json_keys (JArr vs) = concat (map json_keys vs)"
| "json_keys (JToken v) = json_keys v"
| "json_keys _ = []"

text \<open>Every string that occurs as a value in a JSON value, at any depth.\<close>

fun json_strings :: "json \<Rightarrow> string list" where
  "json_strings (JStr s) = [s]"
| "json_strings (JObj kvs) = concat (map (\<lambda>kv. json_strings (snd kv)) kvs)"
| "json_strings (JArr vs) = concat (map json_strings vs)"
| "json_strings (JToken v) = json_strings v"
| "json_strings _ = []"

text \<open>Property read \<^verbatim>\<open>o.k\<close> and \<^verbatim>\<open>delete o.k\<close> on an object.\<close>

definition field :: "(string \<times> json) list \<Rightarrow> string \<Rightarrow> json" where
  "field kvs k = (case map_of kvs k of None \<Rightarrow> JNull | Some v \<Rightarrow> v)"

definition delete_field :: "string \<Rightarrow> (string \<times> json) list \<Rightarrow> (string \<times> json) list" where
  "delete_field k kvs = filter (\<lambda>kv. fst kv \<noteq> k) kvs"

fun json_int :: "int \<Rightarrow> json" where
  "json_int i = JNum (Fin (of_int i))"

fun json_opt :: "('a \<Rightarrow> json) \<Rightarrow> 'a option \<Rightarrow> json" where
  "json_opt f None = JNull"
| "json_opt f (Some x) = f x"

section \<open>The store\<close>

text \<open>
  The four tables of \<^verbatim>\<open>initDb\<close>, each a list of rows in insertion order, and the four
  \<^verbatim>\<open>SERIAL\<close> sequences (the value last handed out). \<^verbatim>\<open>balance\<close> and \<^verbatim>\<open>is_admin\<close> are
  nullable columns with a default, and the handlers deal with both being \<^verbatim>\<open>NULL\<close>.
  \<^verbatim>\<open>deposits.user_id\<close> is nullable too, and is \<^verbatim>\<open>NULL\<close> when the token of the caller
  carries no id. The other columns are only ever written with a value. A \<^verbatim>\<open>NUMERIC\<close> column holds the Number
  that was written to it: the driver writes a Number as its shortest decimal text and
  \<^verbatim>\<open>Number(...)\<close> of that text is the same Number again. The store is taken to accept every
  Number in a \<^verbatim>\<open>NUMERIC\<close> column (PostgreSQL has NaN there, and the infinities from
  version 14).
\<close>

record user =
  u_id :: int
  u_email :: string
  u_password_hash :: string
  u_full_name :: "string option"
  u_created_at :: nat
  u_balance :: "number option"
  u_is_admin :: "bool option"

record match =
  m_id :: int
  m_home :: string
  m_away :: string
  m_odds :: number
  m_created_at :: nat

record bet =
  b_id :: int
  b_user_id :: int
  b_match_id :: int
  b_stake :: number
  b_status :: string
  b_payout :: "number option"
  b_created_at :: nat

record deposit =
  d_id :: int
  d_user_id :: "int option"
  d_amount :: number
  d_status :: string
  d_created_at :: nat
  d_approved_by :: "int option"
  d_approved_at :: "nat option"

record db =
  users :: "user list"
  matches :: "match list"
  bets :: "bet list"
  deposits :: "deposit list"
  users_id_seq :: int
  matches_id_seq :: int
  bets_id_seq :: int
  deposits_id_seq :: int

definition initDb :: db where
  "initDb = \<lparr>users = [], matches = [], bets = [], deposits = [],
             users_id_seq = 0, matches_id_seq = 0, bets_id_seq = 0, deposits_id_seq = 0\<rparr>"

text \<open>\<^verbatim>\<open>SELECT ... WHERE id=$1\<close> followed by \<^verbatim>\<open>rows[0]\<close>.\<close>

definition user_by_id :: "user list \<Rightarrow> int \<Rightarrow> user option" where
  "user_by_id us i = find (\<lambda>u. u_id u = i) us"

definition user_by_email :: "user list \<Rightarrow> string \<Rightarrow> user option" where
  "user_by_email us e = find (\<lambda>u. u_email u = e) us"

definition match_by_id :: "match list \<Rightarrow> int \<Rightarrow> match option" where
  "match_by_id ms i = find (\<lambda>m. m_id m = i) ms"

definition bet_by_id :: "bet list \<Rightarrow> int \<Rightarrow> bet option" where
  "bet_by_id bs i = find (\<lambda>b. b_id b = i) bs"

definition deposit_by_id :: "deposit list \<Rightarrow> int \<Rightarrow> deposit option" where
  "deposit_by_id ds i = find (\<lambda>d. d_id d = i) ds"

text \<open>\<^verbatim>\<open>UPDATE users SET balance=$1 WHERE id=$2\<close>: every row with that id, none if there is none.\<close>

definition set_balance :: "int \<Rightarrow> number \<Rightarrow> user list \<Rightarrow> user list" where
  "set_balance i n us = map (\<lambda>u. if u_id u = i then u\<lparr>u_balance := Some n\<rparr> else u) us"

text \<open>
  The same read and update with a parameter that may be \<^verbatim>\<open>NULL\<close>: \<^verbatim>\<open>id = NULL\<close> holds of no
  row. And the foreign key \<^verbatim>\<open>REFERENCES users(id)\<close>, which a \<^verbatim>\<open>NULL\<close> satisfies.
\<close>

definition user_where_id :: "user list \<Rightarrow> int option \<Rightarrow> user option" where
  "user_where_id us k = (case k of None \<Rightarrow> None | Some i \<Rightarrow> user_by_id us i)"

definition set_balance_where_id :: "int option \<Rightarrow> number \<Rightarrow> user list \<Rightarrow> user list" where
  "set_balance_where_id k n us = (case k of None \<Rightarrow> us | Some i \<Rightarrow> set_balance i n us)"

definition references_user :: "user list \<Rightarrow> int option \<Rightarrow> bool" where
  "references_user us k =
     (case k of None \<Rightarrow> True
      | Some i \<Rightarrow> (case user_by_id us i of None \<Rightarrow> False | Some _ \<Rightarrow> True))"

text \<open>\<^verbatim>\<open>UPDATE deposits SET status=$1, approved_by=$2, approved_at=now() WHERE id=$3\<close>.\<close>

definition set_approved :: "int \<Rightarrow> int option \<Rightarrow> nat \<Rightarrow> deposit list \<Rightarrow> deposit list" where
  "set_approved i by t ds =
     map (\<lambda>d. if d_id d = i
               then d\<lparr>d_status := ''approved'', d_approved_by := by, d_approved_at := Some t\<rparr>
               else d) ds"

text \<open>\<^verbatim>\<open>UPDATE bets SET status=$1, payout=$2 WHERE id=$3\<close>.\<close>

definition set_settled :: "int \<Rightarrow> number \<Rightarrow> bet list \<Rightarrow> bet list" where
  "set_settled i n bs =
     map (\<lambda>b. if b_id b = i then b\<lparr>b_status := ''settled'', b_payout := Some n\<rparr> else b) bs"

text \<open>\<^verbatim>\<open>nextval\<close> of a \<^verbatim>\<open>SERIAL\<close> sequence: an error once the 32-bit range is used up.\<close>

definition nextval :: "int \<Rightarrow> int option" where
  "nextval s = (if s < 2147483647 then Some (s + 1) else None)"


section \<open>Configuration, libraries and the environment of a request\<close>

text \<open>
  \<^verbatim>\<open>bcrypt\<close> and \<^verbatim>\<open>jsonwebtoken\<close> are libraries: their functions are parameters of the
  model (\<open>bcrypt_hash\<close> stands for \<^verbatim>\<open>bcrypt.hash(password, 10)\<close> with its salt chosen,
  \<open>jwt_verify\<close> for \<^verbatim>\<open>jwt.verify(token, JWT_SECRET)\<close>, \<open>None\<close> when it throws).
  \<^verbatim>\<open>jwt.verify\<close> returns the payload of any token signed with the secret, which
  defaults to the constant \<^verbatim>\<open>'change_this_secret'\<close>; the payload is an object with or
  without an \<^verbatim>\<open>id\<close>. Where \<^verbatim>\<open>req.user.id\<close> is \<^verbatim>\<open>undefined\<close> the driver sends \<^verbatim>\<open>NULL\<close>.
\<close>

record identity =
  jwt_id :: "int option"
  jwt_email :: string

record lib =
  bcrypt_hash :: "string \<Rightarrow> string"
  bcrypt_compare :: "string \<Rightarrow> string \<Rightarrow> bool"
  jwt_verify :: "string \<Rightarrow> identity option"

record config =
  env_ADMIN_EMAIL :: "string option"

text \<open>\<^verbatim>\<open>const ADMIN_EMAIL = process.env.ADMIN_EMAIL || null\<close>\<close>

definition ADMIN_EMAIL :: "config \<Rightarrow> string option" where
  "ADMIN_EMAIL cfg = (case env_ADMIN_EMAIL cfg of None \<Rightarrow> None | Some a \<Rightarrow> if a = [] then None else Some a)"

text \<open>
  What is outside the request and the database: the clock (\<^verbatim>\<open>now()\<close> of the store), and
  whether the store fails. \<open>fault = Some k\<close> makes the \<open>k\<close>-th statement that the handler
  sends (counted from 0, \<^verbatim>\<open>BEGIN\<close>, \<^verbatim>\<open>COMMIT\<close> and \<^verbatim>\<open>ROLLBACK\<close> included) throw;
  \<open>admin_fault\<close> makes the lookup of \<^verbatim>\<open>adminMiddleware\<close> throw. A statement that throws
  has had no effect on the store. The \<^verbatim>\<open>ROLLBACK\<close> of a \<^verbatim>\<open>catch\<close> block and
  \<^verbatim>\<open>pool.connect()\<close> are taken to succeed.

  The environment also holds what the platform does with text, as parameters:
  \<open>string_to_number\<close> is \<^verbatim>\<open>Number(s)\<close> for a string, \<open>to_lower_case\<close> is
  \<^verbatim>\<open>String.prototype.toLowerCase\<close>, and \<open>numeric_in\<close> and \<open>int4_in\<close> are the store reading
  a text parameter for a \<^verbatim>\<open>NUMERIC\<close> and an \<^verbatim>\<open>INTEGER\<close> column (\<open>None\<close>: the store raises
  an error; for \<open>numeric_in\<close> the result is the Number that \<^verbatim>\<open>Number(...)\<close> reads back
  from the column).
\<close>

record env =
  now :: nat
  fault :: "nat option"
  admin_fault :: bool
  string_to_number :: "string \<Rightarrow> number"
  to_lower_case :: "string \<Rightarrow> string"
  numeric_in :: "string \<Rightarrow> number option"
  int4_in :: "string \<Rightarrow> int option"

text \<open>\<^verbatim>\<open>Number(x)\<close> for a field that is present.\<close>

fun Number :: "env \<Rightarrow> jsval \<Rightarrow> number" where
  "Number e (VNum n) = n"
| "Number e (VStr s) = string_to_number e s"
| "Number e (VBool b) = Fin (if b then 1 else 0)"

text \<open>
  A field passed as a statement parameter. The driver sends a Number as its decimal
  text, a string as it is and a boolean as \<^verbatim>\<open>true\<close> or \<^verbatim>\<open>false\<close>, which the store reads as
  neither an integer nor a numeric. \<open>None\<close>: the statement throws.
\<close>

fun bind_int4 :: "env \<Rightarrow> jsval \<Rightarrow> int option" where
  "bind_int4 e (VNum n) = pg_int4 n"
| "bind_int4 e (VStr s) = int4_in e s"
| "bind_int4 e (VBool b) = None"

fun bind_numeric :: "env \<Rightarrow> jsval \<Rightarrow> number option" where
  "bind_numeric e (VNum n) = Some n"
| "bind_numeric e (VStr s) = numeric_in e s"
| "bind_numeric e (VBool b) = None"

text \<open>
  One statement sent inside \<^verbatim>\<open>try { ... } catch (err) { ROLLBACK; 500 }\<close>: when the store
  throws at statement \<open>k\<close> the handler answers 500 and the database is \<open>restored\<close>, what it
  is after the rollback; otherwise the handler goes on.
\<close>

definition client_query :: "env \<Rightarrow> nat \<Rightarrow> db \<Rightarrow> response \<times> db \<Rightarrow> response \<times> db" where
  "client_query e k restored rest = (if fault e = Some k then (server_error, restored) else rest)"

subsection \<open>Helpers of the handlers\<close>

text \<open>\<^verbatim>\<open>header.split(' ')\<close>\<close>

fun split_space :: "string \<Rightarrow> string list" where
  "split_space [] = [[]]"
| "split_space (c # cs) =
     (if c = CHR '' '' then [] # split_space cs
      else (case split_space cs of [] \<Rightarrow> [[c]] | w # ws \<Rightarrow> (c # w) # ws))"

definition createToken :: "(string \<times> json) list \<Rightarrow> json" where
  "createToken user = JToken (JObj [(''id'', field user ''id''), (''email'', field user ''email'')])"

definition authMiddleware :: "lib \<Rightarrow> string option \<Rightarrow> response + identity" where
  "authMiddleware l header =
     (case header of
        None \<Rightarrow> Inl (error_json 401 ''Missing auth header'')
      | Some h \<Rightarrow>
          if h = [] then Inl (error_json 401 ''Missing auth header'')
          else (case split_space h of
                  _ # token # _ \<Rightarrow>
                    if token = [] then Inl (error_json 401 ''Malformed auth header'')
                    else (case jwt_verify l token of
                            None \<Rightarrow> Inl (error_json 401 ''Invalid token'')
                          | Some data \<Rightarrow> Inr data)
                | _ \<Rightarrow> Inl (error_json 401 ''Malformed auth header'')))"

text \<open>\<open>None\<close> is \<^verbatim>\<open>next()\<close>; otherwise the response sent.\<close>

definition adminMiddleware :: "env \<Rightarrow> identity \<Rightarrow> db \<Rightarrow> response option" where
  "adminMiddleware e usr d =
     (if admin_fault e then Some server_error
      else (case user_where_id (users d) (jwt_id usr) of
              None \<Rightarrow> Some (error_json 403 ''Admin only'')
            | Some u \<Rightarrow> if u_is_admin u = Some True then None else Some (error_json 403 ''Admin only'')))"

text \<open>Rows as the JavaScript objects the driver returns, by the columns selected.\<close>

definition user_columns :: "user \<Rightarrow> (string \<times> json) list" where
  "user_columns u =
     [(''id'', json_int (u_id u)), (''email'', JStr (u_email u)),
      (''full_name'', json_opt JStr (u_full_name u)),
      (''balance'', json_opt JNumeric (u_balance u)),
      (''is_admin'', json_opt JBool (u_is_admin u))]"

definition login_columns :: "user \<Rightarrow> (string \<times> json) list" where
  "login_columns u =
     [(''id'', json_int (u_id u)), (''email'', JStr (u_email u)),
      (''password_hash'', JStr (u_password_hash u)),
      (''full_name'', json_opt JStr (u_full_name u)),
      (''balance'', json_opt JNumeric (u_balance u)),
      (''is_admin'', json_opt JBool (u_is_admin u))]"

definition match_columns :: "match \<Rightarrow> (string \<times> json) list" where
  "match_columns m =
     [(''id'', json_int (m_id m)), (''home'', JStr (m_home m)), (''away'', JStr (m_away m)),
      (''odds'', JNumeric (m_odds m)), (''created_at'', JTime (m_created_at m))]"

text \<open>\<^verbatim>\<open>Number(row.balance || 0)\<close>: the text of a \<^verbatim>\<open>NUMERIC\<close> is never empty, so only \<^verbatim>\<open>NULL\<close> is falsy.\<close>

definition balance_or_0 :: "user \<Rightarrow> number" where
  "balance_or_0 u = (case u_balance u of None \<Rightarrow> Fin 0 | Some b \<Rightarrow> b)"


section \<open>The route handlers\<close>

text \<open>
  Each handler takes the environment, what the middleware left in \<^verbatim>\<open>req.user\<close>, the fields
  it reads from \<^verbatim>\<open>req.body\<close> and the database; it returns the response and the database
  afterwards. Sequences are not transactional: a value handed out stays handed out when
  the statement or the transaction fails.
\<close>

subsection \<open>Accounts\<close>

definition post_register ::
  "lib \<Rightarrow> config \<Rightarrow> env \<Rightarrow> string option \<Rightarrow> string option \<Rightarrow> string option \<Rightarrow> db \<Rightarrow> response \<times> db" where
  "post_register l cfg e email password full_name d =
     (case (email, password) of
        (Some em, Some pw) \<Rightarrow>
          if em = [] \<or> pw = [] then (error_json 400 ''Missing email or password'', d)
          else
            (let hash = bcrypt_hash l pw;
                 isAdmin = map_option (\<lambda>a. to_lower_case e a = to_lower_case e em) (ADMIN_EMAIL cfg)
             in if fault e = Some 0 then (server_error, d)
                else (case nextval (users_id_seq d) of
                        None \<Rightarrow> (server_error, d)
                      | Some i \<Rightarrow>
                          (case (user_by_email (users d) em, user_by_id (users d) i) of
                             (None, None) \<Rightarrow>
                               (let row = \<lparr>u_id = i, u_email = em, u_password_hash = hash,
                                           u_full_name = (case full_name of
                                                            None \<Rightarrow> None
                                                          | Some n \<Rightarrow> if n = [] then None else Some n),
                                           u_created_at = now e, u_balance = Some (Fin 0),
                                           u_is_admin = isAdmin\<rparr>;
                                    user = user_columns row
                                in (Json 200 (JObj [(''user'', JObj user), (''token'', createToken user)]),
                                    d\<lparr>users := users d @ [row], users_id_seq := i\<rparr>))
                           | _ \<Rightarrow> (error_json 409 ''Email already exists'', d\<lparr>users_id_seq := i\<rparr>))))
      | _ \<Rightarrow> (error_json 400 ''Missing email or password'', d))"

definition post_login ::
  "lib \<Rightarrow> env \<Rightarrow> string option \<Rightarrow> string option \<Rightarrow> db \<Rightarrow> response \<times> db" where
  "post_login l e email password d =
     (case (email, password) of
        (Some em, Some pw) \<Rightarrow>
          if em = [] \<or> pw = [] then (error_json 400 ''Missing email or password'', d)
          else if fault e = Some 0 then (server_error, d)
          else (case user_by_email (users d) em of
                  None \<Rightarrow> (error_json 401 ''Invalid credentials'', d)
                | Some u \<Rightarrow>
                    if bcrypt_compare l pw (u_password_hash u)
                    then (let user = delete_field ''password_hash'' (login_columns u)
                          in (Json 200 (JObj [(''user'', JObj user), (''token'', createToken user)]), d))
                    else (error_json 401 ''Invalid credentials'', d))
      | _ \<Rightarrow> (error_json 400 ''Missing email or password'', d))"

definition get_me :: "env \<Rightarrow> identity \<Rightarrow> db \<Rightarrow> response \<times> db" where
  "get_me e usr d =
     (if fault e = Some 0 then (server_error, d)
      else (case user_where_id (users d) (jwt_id usr) of
              None \<Rightarrow> (error_json 404 ''User not found'', d)
            | Some u \<Rightarrow> (Json 200 (JObj [(''user'', JObj (user_columns u))]), d)))"

subsection \<open>Matches\<close>

definition post_matches ::
  "env \<Rightarrow> string option \<Rightarrow> string option \<Rightarrow> jsval option \<Rightarrow> db \<Rightarrow> response \<times> db" where
  "post_matches e home away odds d =
     (case (home, away, odds) of
        (Some h, Some a, Some v) \<Rightarrow>
          if h = [] \<or> a = [] then (error_json 400 ''Missing match data'', d)
          else if js_truthy v then
            (if fault e = Some 0 then (server_error, d)
             else (case bind_numeric e v of
                     None \<Rightarrow> (server_error, d)
                   | Some n \<Rightarrow>
                       (case nextval (matches_id_seq d) of
                          None \<Rightarrow> (server_error, d)
                        | Some i \<Rightarrow>
                            (case match_by_id (matches d) i of
                               None \<Rightarrow>
                                 (let row = \<lparr>m_id = i, m_home = h, m_away = a, m_odds = n,
                                             m_created_at = now e\<rparr>
                                  in (Json 200 (JObj [(''match'', JObj (match_columns row))]),
                                      d\<lparr>matches := matches d @ [row], matches_id_seq := i\<rparr>))
                             | Some _ \<Rightarrow> (server_error, d\<lparr>matches_id_seq := i\<rparr>)))))
          else (error_json 400 ''Missing match data'', d)
      | _ \<Rightarrow> (error_json 400 ''Missing match data'', d))"

text \<open>
  \<^verbatim>\<open>ORDER BY created_at DESC\<close>. SQL leaves the order of rows with equal keys open; the model
  takes the reverse of a stable ascending sort.
\<close>

definition get_matches :: "env \<Rightarrow> db \<Rightarrow> response \<times> db" where
  "get_matches e d =
     (if fault e = Some 0 then (server_error, d)
      else (Json 200 (JObj [(''matches'',
              JArr (map (\<lambda>m. JObj (match_columns m)) (rev (sort_key m_created_at (matches d)))))]), d))"

subsection \<open>Deposits\<close>

text \<open>
  \<^verbatim>\<open>POST /api/deposits/request\<close>. The check is on \<^verbatim>\<open>Number(amount)\<close>, the value stored is
  what the store reads from the parameter \<^verbatim>\<open>amount\<close>. The insert fails on the foreign key
  when the id of the caller is that of no row in \<^verbatim>\<open>users\<close>.
\<close>

definition post_deposits_request :: "env \<Rightarrow> identity \<Rightarrow> jsval option \<Rightarrow> db \<Rightarrow> response \<times> db" where
  "post_deposits_request e usr amount d =
     (case amount of
        None \<Rightarrow> (error_json 400 ''Invalid amount'', d)
      | Some v \<Rightarrow>
          if js_truthy v then
            (if num_le (Number e v) (Fin 0) then (error_json 400 ''Invalid amount'', d)
             else if fault e = Some 0 then (server_error, d)
             else (case bind_numeric e v of
                     None \<Rightarrow> (server_error, d)
                   | Some n \<Rightarrow>
                       (case nextval (deposits_id_seq d) of
                          None \<Rightarrow> (server_error, d)
                        | Some i \<Rightarrow>
                            if references_user (users d) (jwt_id usr) then
                              (case deposit_by_id (deposits d) i of
                                 None \<Rightarrow>
                                   (let row = \<lparr>d_id = i, d_user_id = jwt_id usr, d_amount = n,
                                               d_status = ''pending'', d_created_at = now e,
                                               d_approved_by = None, d_approved_at = None\<rparr>
                                    in (Json 200 (JObj [(''deposit'', JObj [(''id'', json_int i),
                                                            (''amount'', JNumeric n),
                                                            (''status'', JStr ''pending'')]),
                                                        (''message'', JStr ''Deposit requested. Admin must approve (demo).'')]),
                                        d\<lparr>deposits := deposits d @ [row], deposits_id_seq := i\<rparr>))
                               | Some _ \<Rightarrow> (server_error, d\<lparr>deposits_id_seq := i\<rparr>))
                            else (server_error, d\<lparr>deposits_id_seq := i\<rparr>))))
          else (error_json 400 ''Invalid amount'', d))"

text \<open>
  \<^verbatim>\<open>POST /api/deposits/approve\<close>. Statements: 0 \<^verbatim>\<open>BEGIN\<close>, 1 the locking read of the deposit,
  then either 2 \<^verbatim>\<open>ROLLBACK\<close> (not found, already approved), or 2 the locking read of the
  owner, 3 the balance update, 4 the deposit update, 5 \<^verbatim>\<open>COMMIT\<close>. The read of the owner
  yields \<open>0\<close> when there is no such row or its balance is \<^verbatim>\<open>NULL\<close>; the balance update then
  touches no row. The deposit update fails on the foreign key of \<^verbatim>\<open>approved_by\<close> when the
  id of the caller is that of no row in \<^verbatim>\<open>users\<close>.
\<close>

definition post_deposits_approve :: "env \<Rightarrow> identity \<Rightarrow> jsval option \<Rightarrow> db \<Rightarrow> response \<times> db" where
  "post_deposits_approve e usr deposit_id d =
     (case deposit_id of
        None \<Rightarrow> (error_json 400 ''Missing deposit id'', d)
      | Some v \<Rightarrow>
          if js_truthy v then
            client_query e 0 d
             (client_query e 1 d
               (case bind_int4 e v of
                  None \<Rightarrow> (server_error, d)
                | Some i \<Rightarrow>
                    (case deposit_by_id (deposits d) i of
                       None \<Rightarrow> client_query e 2 d (error_json 404 ''Deposit not found'', d)
                     | Some dep \<Rightarrow>
                         if d_status dep = ''approved''
                         then client_query e 2 d (error_json 400 ''Already approved'', d)
                         else
                           client_query e 2 d
                            (let current = (case user_where_id (users d) (d_user_id dep) of
                                              None \<Rightarrow> Fin 0
                                            | Some u \<Rightarrow> balance_or_0 u);
                                 newBal = num_add current (d_amount dep)
                             in client_query e 3 d
                                 (client_query e 4 d
                                   (if references_user (users d) (jwt_id usr) then
                                      client_query e 5 d
                                       (Json 200 (JObj [(''success'', JBool True),
                                                        (''newBalance'', JNum newBal)]),
                                        d\<lparr>users := set_balance_where_id (d_user_id dep) newBal (users d),
                                          deposits := set_approved i (jwt_id usr) (now e)
                                                        (deposits d)\<rparr>)
                                    else (server_error, d)))))))
          else (error_json 400 ''Missing deposit id'', d))"

subsection \<open>Bets\<close>

text \<open>
  \<^verbatim>\<open>POST /api/bets/place\<close>. Statements: 0 \<^verbatim>\<open>BEGIN\<close>, 1 the locking read of the caller,
  2 the read of the match, 3 the balance update, 4 the insert, 5 \<^verbatim>\<open>COMMIT\<close>; a \<^verbatim>\<open>ROLLBACK\<close>
  takes the next number on the early returns. The checks and the debit are on
  \<^verbatim>\<open>Number(stake)\<close>, the stake stored is what the store reads from the parameter
  \<^verbatim>\<open>stake\<close>. The insert takes its defaults: \<^verbatim>\<open>payout\<close> 0 and \<^verbatim>\<open>created_at\<close> \<^verbatim>\<open>now()\<close>. Its
  foreign keys hold, both rows having just been read.
\<close>

definition post_bets_place ::
  "env \<Rightarrow> identity \<Rightarrow> jsval option \<Rightarrow> jsval option \<Rightarrow> db \<Rightarrow> response \<times> db" where
  "post_bets_place e usr match_id stake d =
     (case (match_id, stake) of
        (Some mv, Some sv) \<Rightarrow>
          if js_truthy mv \<and> js_truthy sv then
            (if num_le (Number e sv) (Fin 0) then (error_json 400 ''Invalid bet data'', d)
             else
               client_query e 0 d
                (client_query e 1 d
                  (case jwt_id usr of
                     None \<Rightarrow> client_query e 2 d (error_json 404 ''User not found'', d)
                   | Some uid \<Rightarrow>
                       (case user_by_id (users d) uid of
                          None \<Rightarrow> client_query e 2 d (error_json 404 ''User not found'', d)
                        | Some u \<Rightarrow>
                            (let balance = balance_or_0 u
                             in if num_less balance (Number e sv)
                                then client_query e 2 d (error_json 400 ''Insufficient balance'', d)
                                else
                                  client_query e 2 d
                                   (case bind_int4 e mv of
                                      None \<Rightarrow> (server_error, d)
                                    | Some m \<Rightarrow>
                                        (case match_by_id (matches d) m of
                                           None \<Rightarrow>
                                             client_query e 3 d (error_json 404 ''Match not found'', d)
                                         | Some _ \<Rightarrow>
                                             (let newBalance = num_sub balance (Number e sv)
                                              in client_query e 3 d
                                                  (client_query e 4 d
                                                    (case bind_numeric e sv of
                                                       None \<Rightarrow> (server_error, d)
                                                     | Some st \<Rightarrow>
                                                         (case nextval (bets_id_seq d) of
                                                            None \<Rightarrow> (server_error, d)
                                                          | Some i \<Rightarrow>
                                                              (case bet_by_id (bets d) i of
                                                                 Some _ \<Rightarrow>
                                                                   (server_error, d\<lparr>bets_id_seq := i\<rparr>)
                                                               | None \<Rightarrow>
                                                                   client_query e 5 (d\<lparr>bets_id_seq := i\<rparr>)
                                                                    (Json 200
                                                                      (JObj [(''success'', JBool True),
                                                                             (''betId'', json_int i),
                                                                             (''newBalance'', JNum newBalance)]),
                                                                     d\<lparr>users := set_balance uid newBalance (users d),
                                                                       bets := bets d @
                                                                         [\<lparr>b_id = i, b_user_id = uid,
                                                                           b_match_id = m, b_stake = st,
                                                                           b_status = ''open'',
                                                                           b_payout = Some (Fin 0),
                                                                           b_created_at = now e\<rparr>],
                                                                       bets_id_seq := i\<rparr>)))))))))))))
          else (error_json 400 ''Invalid bet data'', d)
      | _ \<Rightarrow> (error_json 400 ''Invalid bet data'', d))"

text \<open>
  \<^verbatim>\<open>POST /api/bets/payout\<close>. Statements: 0 \<^verbatim>\<open>BEGIN\<close>, 1 the locking read of the bet, then
  either 2 \<^verbatim>\<open>ROLLBACK\<close> (not found, already settled), or 2 the locking read of the owner,
  3 the balance update, 4 the bet update, 5 \<^verbatim>\<open>COMMIT\<close>. \<^verbatim>\<open>userRes.rows[0].balance\<close> throws
  a TypeError when the owner has no row. The credit is \<^verbatim>\<open>Number(amount)\<close>, the payout
  stored is what the store reads from the parameter \<^verbatim>\<open>amount\<close>.
\<close>

definition post_bets_payout :: "env \<Rightarrow> jsval option \<Rightarrow> jsval option \<Rightarrow> db \<Rightarrow> response \<times> db" where
  "post_bets_payout e betId amount d =
     (case (betId, amount) of
        (Some bv, Some av) \<Rightarrow>
          if js_truthy bv \<and> js_truthy av then
            client_query e 0 d
             (client_query e 1 d
               (case bind_int4 e bv of
                  None \<Rightarrow> (server_error, d)
                | Some i \<Rightarrow>
                    (case bet_by_id (bets d) i of
                       None \<Rightarrow> client_query e 2 d (error_json 404 ''Bet not found'', d)
                     | Some bet \<Rightarrow>
                         if b_status bet = ''settled''
                         then client_query e 2 d (error_json 400 ''Already settled'', d)
                         else
                           client_query e 2 d
                            (case user_by_id (users d) (b_user_id bet) of
                               None \<Rightarrow> (server_error, d)
                             | Some u \<Rightarrow>
                                 (let curBalance = balance_or_0 u;
                                      newBalance = num_add curBalance (Number e av)
                                  in client_query e 3 d
                                      (client_query e 4 d
                                        (case bind_numeric e av of
                                           None \<Rightarrow> (server_error, d)
                                         | Some p \<Rightarrow>
                                             client_query e 5 d
                                              (Json 200 (JObj [(''success'', JBool True)]),
                                               d\<lparr>users := set_balance (b_user_id bet) newBalance (users d),
                                                 bets := set_settled i p (bets d)\<rparr>))))))))
          else (error_json 400 ''Missing params'', d)
      | _ \<Rightarrow> (error_json 400 ''Missing params'', d))"

subsection \<open>Read-only listings\<close>

definition bet_columns :: "bet \<Rightarrow> match option \<Rightarrow> (string \<times> json) list" where
  "bet_columns b m =
     [(''id'', json_int (b_id b)), (''match_id'', json_int (b_match_id b)),
      (''stake'', JNumeric (b_stake b)), (''status'', JStr (b_status b)),
      (''payout'', json_opt JNumeric (b_payout b)), (''created_at'', JTime (b_created_at b)),
      (''home'', json_opt JStr (map_option m_home m)),
      (''away'', json_opt JStr (map_option m_away m)),
      (''odds'', json_opt JNumeric (map_option m_odds m))]"

definition get_bets_my :: "env \<Rightarrow> identity \<Rightarrow> db \<Rightarrow> response \<times> db" where
  "get_bets_my e usr d =
     (if fault e = Some 0 then (server_error, d)
      else (Json 200 (JObj [(''bets'',
              JArr (map (\<lambda>b. JObj (bet_columns b (match_by_id (matches d) (b_match_id b))))
                     (rev (sort_key b_created_at
                             (filter (\<lambda>b. Some (b_user_id b) = jwt_id usr) (bets d))))))]), d))"

definition deposit_columns :: "deposit \<Rightarrow> user option \<Rightarrow> (string \<times> json) list" where
  "deposit_columns dp u =
     [(''id'', json_int (d_id dp)), (''user_id'', json_opt json_int (d_user_id dp)),
      (''amount'', JNumeric (d_amount dp)), (''status'', JStr (d_status dp)),
      (''created_at'', JTime (d_created_at dp)),
      (''email'', json_opt JStr (map_option u_email u))]"

definition get_admin_deposits :: "env \<Rightarrow> db \<Rightarrow> response \<times> db" where
  "get_admin_deposits e d =
     (if fault e = Some 0 then (server_error, d)
      else (Json 200 (JObj [(''deposits'',
              JArr (map (\<lambda>dp. JObj (deposit_columns dp (user_where_id (users d) (d_user_id dp))))
                     (sort_key d_created_at
                        (filter (\<lambda>dp. d_status dp = ''pending'') (deposits d)))))]), d))"

text \<open>
  The order of \<^verbatim>\<open>NUMERIC\<close> in the store: \<open>-Infinity\<close>, the finite values, \<open>Infinity\<close>,
  NaN, and \<^verbatim>\<open>NULL\<close> last.
\<close>

fun numeric_rank :: "number option \<Rightarrow> nat \<times> rat" where
  "numeric_rank (Some NInf) = (0, 0)"
| "numeric_rank (Some (Fin x)) = (1, x)"
| "numeric_rank (Some PInf) = (2, 0)"
| "numeric_rank (Some NaN) = (3, 0)"
| "numeric_rank None = (4, 0)"

definition get_admin_users :: "env \<Rightarrow> db \<Rightarrow> response \<times> db" where
  "get_admin_users e d =
     (if fault e = Some 0 then (server_error, d)
      else (Json 200 (JObj [(''users'',
              JArr (map (\<lambda>u. JObj (user_columns u))
                     (take 100 (rev (sort_key (\<lambda>u. numeric_rank (u_balance u)) (users d))))))]), d))"

definition get_health :: response where
  "get_health = Json 200 (JObj [(''ok'', JBool True)])"

definition get_root :: response where
  "get_root = Text 200 ''Omokabet backend is running''"

section \<open>The application\<close>

text \<open>The routes registered on \<^verbatim>\<open>app\<close>, with the body fields each handler reads.\<close>

datatype request =
    GetHealth
  | PostRegister "string option" "string option" "string option"
  | PostLogin "string option" "string option"
  | GetMe
  | PostMatches "string option" "string option" "jsval option"
  | GetMatches
  | PostDepositsRequest "jsval option"
  | PostDepositsApprove "jsval option"
  | PostBetsPlace "jsval option" "jsval option"
  | PostBetsPayout "jsval option" "jsval option"
  | GetBetsMy
  | GetAdminDeposits
  | GetAdminUsers
  | GetRoot

text \<open>A route behind \<^verbatim>\<open>authMiddleware\<close>, and one behind \<^verbatim>\<open>authMiddleware, adminMiddleware\<close>.\<close>

definition authed ::
  "lib \<Rightarrow> string option \<Rightarrow> db \<Rightarrow> (identity \<Rightarrow> response \<times> db) \<Rightarrow> response \<times> db" where
  "authed l header d handler =
     (case authMiddleware l header of Inl r \<Rightarrow> (r, d) | Inr usr \<Rightarrow> handler usr)"

definition admin_only ::
  "lib \<Rightarrow> env \<Rightarrow> string option \<Rightarrow> db \<Rightarrow> (identity \<Rightarrow> response \<times> db) \<Rightarrow> response \<times> db" where
  "admin_only l e header d handler =
     authed l header d
       (\<lambda>usr. case adminMiddleware e usr d of Some r \<Rightarrow> (r, d) | None \<Rightarrow> handler usr)"

fun serve :: "lib \<Rightarrow> config \<Rightarrow> env \<Rightarrow> string option \<Rightarrow> request \<Rightarrow> db \<Rightarrow> response \<times> db" where
  "serve l cfg e h GetHealth d = (get_health, d)"
| "serve l cfg e h (PostRegister email password full_name) d =
     post_register l cfg e email password full_name d"
| "serve l cfg e h (PostLogin email password) d = post_login l e email password d"
| "serve l cfg e h GetMe d = authed l h d (\<lambda>usr. get_me e usr d)"
| "serve l cfg e h (PostMatches home away odds) d =
     admin_only l e h d (\<lambda>usr. post_matches e home away odds d)"
| "serve l cfg e h GetMatches d = get_matches e d"
| "serve l cfg e h (PostDepositsRequest amount) d =
     authed l h d (\<lambda>usr. post_deposits_request e usr amount d)"
| "serve l cfg e h (PostDepositsApprove deposit_id) d =
     admin_only l e h d (\<lambda>usr. post_deposits_approve e usr deposit_id d)"
| "serve l cfg e h (PostBetsPlace match_id stake) d =
     authed l h d (\<lambda>usr. post_bets_place e usr match_id stake d)"
| "serve l cfg e h (PostBetsPayout betId amount) d =
     admin_only l e h d (\<lambda>usr. post_bets_payout e betId amount d)"
| "serve l cfg e h GetBetsMy d = authed l h d (\<lambda>usr. get_bets_my e usr d)"
| "serve l cfg e h GetAdminDeposits d = admin_only l e h d (\<lambda>usr. get_admin_deposits e d)"
| "serve l cfg e h GetAdminUsers d = admin_only l e h d (\<lambda>usr. get_admin_users e d)"
| "serve l cfg e h GetRoot d = (get_root, d)"

text \<open>Requests served one after the other, each with its environment and its header.\<close>

fun serve_all :: "lib \<Rightarrow> config \<Rightarrow> (env \<times> string option \<times> request) list \<Rightarrow> db \<Rightarrow> db" where
  "serve_all l cfg [] d = d"
| "serve_all l cfg ((e, h, r) # rs) d = serve_all l cfg rs (snd (serve l cfg e h r d))"


section \<open>Sample data\<close>

text \<open>
  Sample readers of text for an environment. They read an unsigned decimal integer as
  JavaScript and the store both do, and nothing else: other text is NaN for the one and
  an error for the others. The sample \<open>toLowerCase\<close> folds the ASCII letters.
\<close>

fun decimal_digits :: "nat \<Rightarrow> string \<Rightarrow> nat option" where
  "decimal_digits acc [] = Some acc"
| "decimal_digits acc (c # cs) =
     (let k = (of_char c :: nat)
      in if 48 \<le> k \<and> k \<le> 57 then decimal_digits (10 * acc + (k - 48)) cs else None)"

definition unsigned_decimal :: "string \<Rightarrow> nat option" where
  "unsigned_decimal s = (if s = [] then None else decimal_digits 0 s)"

definition sample_string_to_number :: "string \<Rightarrow> number" where
  "sample_string_to_number s = (case unsigned_decimal s of None \<Rightarrow> NaN | Some k \<Rightarrow> rnd (of_nat k))"

definition sample_numeric_in :: "string \<Rightarrow> number option" where
  "sample_numeric_in s = map_option (\<lambda>k. rnd (of_nat k)) (unsigned_decimal s)"

definition sample_int4_in :: "string \<Rightarrow> int option" where
  "sample_int4_in s =
     (case unsigned_decimal s of
        None \<Rightarrow> None
      | Some k \<Rightarrow> if k \<le> 2147483647 then Some (int k) else None)"

definition lower_char :: "char \<Rightarrow> char" where
  "lower_char c = (let n = (of_char c :: nat) in if 65 \<le> n \<and> n \<le> 90 then char_of (n + 32) else c)"

definition ascii_lower :: "string \<Rightarrow> string" where
  "ascii_lower s = map lower_char s"

text \<open>
  A library with three tokens: \<open>A\<close> is the administrator's, \<open>P\<close> a player's, and \<open>N\<close> is
  signed with the secret but carries no id. A configuration that makes \<^verbatim>\<open>admin@x.com\<close> the
  administrator, and environments at time \<open>t\<close>, without faults or failing at statement \<open>k\<close>.
\<close>

definition admin_identity :: identity where
  "admin_identity = \<lparr>jwt_id = Some 1, jwt_email = ''admin@x.com''\<rparr>"

definition player_identity :: identity where
  "player_identity = \<lparr>jwt_id = Some 2, jwt_email = ''a@x.com''\<rparr>"

definition nameless_identity :: identity where
  "nameless_identity = \<lparr>jwt_id = None, jwt_email = ''n@x.com''\<rparr>"

definition demo_lib :: lib where
  "demo_lib =
     \<lparr>bcrypt_hash = (\<lambda>p. ''$2b$10$'' @ p),
      bcrypt_compare = (\<lambda>p h. h = ''$2b$10$'' @ p),
      jwt_verify = (\<lambda>t. if t = ''A'' then Some admin_identity
                          else if t = ''P'' then Some player_identity
                          else if t = ''N'' then Some nameless_identity else None)\<rparr>"

definition demo_config :: config where
  "demo_config = \<lparr>env_ADMIN_EMAIL = Some ''admin@x.com''\<rparr>"

definition quiet :: "nat \<Rightarrow> env" where
  "quiet t = \<lparr>now = t, fault = None, admin_fault = False,
              string_to_number = sample_string_to_number, to_lower_case = ascii_lower,
              numeric_in = sample_numeric_in, int4_in = sample_int4_in\<rparr>"

definition failing :: "nat \<Rightarrow> nat \<Rightarrow> env" where
  "failing t k = \<lparr>now = t, fault = Some k, admin_fault = False,
                  string_to_number = sample_string_to_number, to_lower_case = ascii_lower,
                  numeric_in = sample_numeric_in, int4_in = sample_int4_in\<rparr>"

text \<open>
  A database with the administrator (id 1), a player (id 2) whose balance is \<open>b\<close>, one
  match, a pending deposit of \<open>a\<close> by the player and an open bet of the player.
\<close>

definition ledger :: "number \<Rightarrow> number \<Rightarrow> db" where
  "ledger b a =
     \<lparr>users =
        [\<lparr>u_id = 1, u_email = ''admin@x.com'', u_password_hash = ''$2b$10$root'',
          u_full_name = None, u_created_at = 0, u_balance = Some (Fin 0), u_is_admin = Some True\<rparr>,
         \<lparr>u_id = 2, u_email = ''a@x.com'', u_password_hash = ''$2b$10$p'',
          u_full_name = Some ''Ann'', u_created_at = 1, u_balance = Some b, u_is_admin = Some False\<rparr>],
      matches = [\<lparr>m_id = 1, m_home = ''Gor'', m_away = ''AFC'', m_odds = Fin 2, m_created_at = 2\<rparr>],
      bets =
        [\<lparr>b_id = 1, b_user_id = 2, b_match_id = 1, b_stake = Fin 10, b_status = ''open'',
          b_payout = Some (Fin 0), b_created_at = 3\<rparr>],
      deposits =
        [\<lparr>d_id = 1, d_user_id = Some 2, d_amount = a, d_status = ''pending'', d_created_at = 4,
          d_approved_by = None, d_approved_at = None\<rparr>],
      users_id_seq = 2, matches_id_seq = 1, bets_id_seq = 1, deposits_id_seq = 1\<rparr>"

text \<open>
  A session from the empty database: the administrator and a player register, a match is
  created, the player has 10 deposited and approved, stakes all 10, and the administrator
  pays the bet out with the amount \<open>-5\<close>.
\<close>

definition negative_payout_session :: "(env \<times> string option \<times> request) list" where
  "negative_payout_session =
     [(quiet 0, None, PostRegister (Some ''admin@x.com'') (Some ''root'') None),
      (quiet 1, None, PostRegister (Some ''a@x.com'') (Some ''p'') (Some ''Ann'')),
      (quiet 2, Some ''Bearer A'', PostMatches (Some ''Gor'') (Some ''AFC'') (Some (VNum (Fin 2)))),
      (quiet 3, Some ''Bearer P'', PostDepositsRequest (Some (VNum (Fin 10)))),
      (quiet 4, Some ''Bearer A'', PostDepositsApprove (Some (VNum (Fin 1)))),
      (quiet 5, Some ''Bearer P'', PostBetsPlace (Some (VNum (Fin 1))) (Some (VNum (Fin 10)))),
      (quiet 6, Some ''Bearer A'', PostBetsPayout (Some (VNum (Fin 1))) (Some (VNum (Fin (- 5)))))]"

text \<open>
  A session from the empty database that leaves a deposit without an owner: the
  administrator registers, and a caller whose token carries no id requests a deposit of
  50, which is stored with \<^verbatim>\<open>user_id\<close> \<^verbatim>\<open>NULL\<close>. \<open>ownerless_ledger\<close> is the database after it.
\<close>

definition ownerless_session :: "(env \<times> string option \<times> request) list" where
  "ownerless_session =
     [(quiet 0, None, PostRegister (Some ''admin@x.com'') (Some ''root'') None),
      (quiet 1, Some ''Bearer N'', PostDepositsRequest (Some (VNum (Fin 50))))]"

definition ownerless_ledger :: db where
  "ownerless_ledger = serve_all demo_lib demo_config ownerless_session initDb"


section \<open>Computing with the number model\<close>

lemma bitlen_One: "bitlen 1 = 1"
  by (subst compute_bitlen) simp

lemma bitlen_Bit0: "bitlen (numeral (Num.Bit0 n)) = bitlen (numeral n) + 1"
  by (subst compute_bitlen) simp

lemma bitlen_Bit1: "bitlen (numeral (Num.Bit1 n)) = bitlen (numeral n) + 1"
  by (subst compute_bitlen) simp

lemma floor_rat_div: "\<lfloor>numeral a / numeral b :: rat\<rfloor> = numeral a div numeral b"
  using floor_divide_of_int_eq [of "numeral a" "numeral b", where ?'a = rat] by simp

lemma ceiling_rat_div: "\<lceil>numeral a / numeral b :: rat\<rceil> = - ((- numeral a) div numeral b)"
  using floor_divide_of_int_eq [of "- numeral a" "numeral b", where ?'a = rat]
  by (simp add: ceiling_def)

lemmas num_eval = bitlen_One bitlen_Bit0 bitlen_Bit1 floor_rat_div ceiling_rat_div
  floor_log2_def round_half_even_def rnd_def pow2_def Let_def

lemmas handler_defs = post_register_def post_login_def get_me_def post_matches_def
  post_deposits_request_def post_deposits_approve_def post_bets_place_def post_bets_payout_def
  authed_def admin_only_def authMiddleware_def adminMiddleware_def client_query_def

lemmas store_defs = user_by_id_def user_by_email_def match_by_id_def bet_by_id_def
  deposit_by_id_def set_balance_def set_approved_def set_settled_def nextval_def
  balance_or_0_def pg_int4_def user_where_id_def set_balance_where_id_def references_user_def

lemmas demo_defs = demo_lib_def demo_config_def quiet_def failing_def admin_identity_def
  player_identity_def nameless_identity_def ledger_def initDb_def ADMIN_EMAIL_def
  ascii_lower_def lower_char_def sample_string_to_number_def sample_numeric_in_def
  sample_int4_in_def unsigned_decimal_def

text \<open>The decimal literals \<^verbatim>\<open>0.1\<close>, \<^verbatim>\<open>0.2\<close> and \<^verbatim>\<open>0.3\<close> as doubles, and \<^verbatim>\<open>0.1 + 0.2\<close>.\<close>

lemma rnd_tenth: "rnd (1 / 10) = Fin (3602879701896397 / 36028797018963968)"
  by (simp add: num_eval)

lemma rnd_fifth: "rnd (2 / 10) = Fin (3602879701896397 / 18014398509481984)"
  by (simp add: num_eval)

lemma rnd_three_tenths: "rnd (3 / 10) = Fin (5404319552844595 / 18014398509481984)"
  by (simp add: num_eval)

lemma tenth_plus_fifth:
  "num_add (rnd (1 / 10)) (rnd (2 / 10)) = Fin (1351079888211149 / 4503599627370496)"
  by (simp add: num_eval)

subsection \<open>Rounding is exact on doubles, and integers up to \<open>2\<^sup>5\<^sup>3\<close> are doubles\<close>

lemma pow2_pos: "0 < pow2 k"
  by (simp add: pow2_def)

lemma round_half_even_of_int: "round_half_even (of_int k) = k"
  by (simp add: round_half_even_def)

lemma rnd_exact:
  assumes "is_double x"
  shows "rnd x = Fin x"
proof (cases "x = 0")
  case True
  then show ?thesis by (simp add: rnd_def)
next
  case False
  define q where "q = pow2 (max (floor_log2 \<bar>x\<bar>) (- 1022) - 52)"
  have q: "0 < q" by (simp add: q_def pow2_pos)
  from assms False have grid: "\<bar>x\<bar> / q = of_int \<lfloor>\<bar>x\<bar> / q\<rfloor>" and range: "\<bar>x\<bar> < 2 ^ 1024"
    by (simp_all add: is_double_def Let_def q_def)
  have "round_half_even (\<bar>x\<bar> / q) = \<lfloor>\<bar>x\<bar> / q\<rfloor>"
    by (subst grid) (rule round_half_even_of_int)
  then have r: "of_int (round_half_even (\<bar>x\<bar> / q)) * q = \<bar>x\<bar>"
    using grid q by simp
  show ?thesis
    using False range r unfolding rnd_def Let_def q_def [symmetric]
    by (auto simp: abs_if split: if_splits)
qed

lemma bitlen_le_54:
  assumes "0 < n" "n \<le> 2 ^ 53"
  shows "bitlen n \<le> 54"
proof -
  have "n < 2 ^ 54" using assms by simp
  then show ?thesis using assms(1) by (simp add: bitlen_le_iff_power)
qed

lemma int_is_double:
  assumes "\<bar>n\<bar> \<le> 2 ^ 53"
  shows "is_double (of_int n)"
proof (cases "n = 0")
  case True
  then show ?thesis by (simp add: is_double_def)
next
  case False
  define a where "a = \<bar>n\<bar>"
  define k where "k = bitlen a"
  have a: "0 < a" "a \<le> 2 ^ 53" using False assms by (simp_all add: a_def)
  have k1: "1 \<le> k" using a(1) by (simp add: k_def bitlen_alt_def)
  have k54: "k \<le> 54" unfolding k_def using a by (rule bitlen_le_54)
  have lo: "2 ^ nat (k - 1) \<le> a" using bitlen_bounds [OF a(1)] by (simp add: k_def)
  have fl: "floor_log2 (of_int a) = k - 1"
    using a(1) by (simp add: floor_log2_def k_def)
  have e: "max (floor_log2 (of_int a)) (- 1022) - 52 = k - 53"
    using k1 by (simp add: fl)
  have grid: "\<exists>m::int. (of_int a :: rat) / pow2 (k - 53) = of_int m"
  proof (cases "k \<le> 53")
    case True
    then have "(of_int a :: rat) / pow2 (k - 53) = of_int (a * 2 ^ nat (53 - k))"
      by (simp add: pow2_def)
    then show ?thesis by blast
  next
    case False
    with k54 have k: "k = 54" by simp
    with lo a(2) have "a = 2 ^ 53" by simp
    then have "(of_int a :: rat) / pow2 (k - 53) = of_int (2 ^ 52)"
      by (simp add: pow2_def k)
    then show ?thesis by blast
  qed
  then obtain m :: int where m: "(of_int a :: rat) / pow2 (k - 53) = of_int m" by blast
  have range: "(of_int a :: rat) < 2 ^ 1024"
  proof -
    have "a < 2 ^ 1024" using a(2) by (rule order_le_less_trans) simp
    then have "(of_int a :: rat) < of_int (2 ^ 1024)" by (simp only: of_int_less_iff)
    then show ?thesis by simp
  qed
  have abs: "\<bar>of_int n :: rat\<bar> = of_int a" by (simp add: a_def)
  show ?thesis
    unfolding is_double_def Let_def abs e using m range by simp
qed

section \<open>The store and the three transactions, path by path\<close>

lemma find_map_same_key:
  assumes "\<And>x. key (f x) = key x"
  shows "find (\<lambda>x. key x = j) (map f xs) = map_option f (find (\<lambda>x. key x = j) xs)"
  by (induction xs) (simp_all add: assms)

lemma find_key: "find (\<lambda>x. key x = j) xs = Some x \<Longrightarrow> key x = j"
  by (induction xs) (auto split: if_splits)

lemma map_absent_key:
  assumes "find (\<lambda>x. key x = j) xs = None"
  shows "map (\<lambda>x. if key x = j then f x else x) xs = xs"
  using assms by (induction xs) (auto split: if_splits)

lemma user_by_id_set_balance:
  "user_by_id (set_balance i n us) j =
     map_option (\<lambda>u. if u_id u = i then u\<lparr>u_balance := Some n\<rparr> else u) (user_by_id us j)"
  unfolding user_by_id_def set_balance_def
  by (rule find_map_same_key) simp

lemma user_by_id_key: "user_by_id us i = Some u \<Longrightarrow> u_id u = i"
  unfolding user_by_id_def by (rule find_key)

lemma credited_user:
  "user_by_id us i = Some u \<Longrightarrow> user_by_id (set_balance i n us) i = Some (u\<lparr>u_balance := Some n\<rparr>)"
  by (simp add: user_by_id_set_balance user_by_id_key)

lemma other_user:
  assumes "j \<noteq> i"
  shows "user_by_id (set_balance i n us) j = user_by_id us j"
proof (cases "user_by_id us j")
  case None
  then show ?thesis by (simp add: user_by_id_set_balance)
next
  case (Some u)
  with assms user_by_id_key [OF Some] show ?thesis by (simp add: user_by_id_set_balance)
qed

lemma set_balance_absent: "user_by_id us i = None \<Longrightarrow> set_balance i n us = us"
  unfolding user_by_id_def set_balance_def by (rule map_absent_key)

lemma deposit_by_id_key: "deposit_by_id ds i = Some dp \<Longrightarrow> d_id dp = i"
  unfolding deposit_by_id_def by (rule find_key)

lemma approved_deposit:
  "deposit_by_id ds i = Some dp \<Longrightarrow>
   deposit_by_id (set_approved i by t ds) i =
     Some (dp\<lparr>d_status := ''approved'', d_approved_by := by, d_approved_at := Some t\<rparr>)"
  unfolding deposit_by_id_def set_approved_def
  by (subst find_map_same_key) (auto dest: find_key)

lemma bet_by_id_key: "bet_by_id bs i = Some b \<Longrightarrow> b_id b = i"
  unfolding bet_by_id_def by (rule find_key)

lemma settled_bet:
  "bet_by_id bs i = Some b \<Longrightarrow>
   bet_by_id (set_settled i n bs) i = Some (b\<lparr>b_status := ''settled'', b_payout := Some n\<rparr>)"
  unfolding bet_by_id_def set_settled_def
  by (subst find_map_same_key) (auto dest: find_key)

lemma admin_has_row: "adminMiddleware e usr d = None \<Longrightarrow> references_user (users d) (jwt_id usr)"
  by (auto simp: adminMiddleware_def user_where_id_def references_user_def
           split: if_splits option.splits)

lemma other_deposit:
  assumes "j \<noteq> i"
  shows "deposit_by_id (set_approved i by t ds) j = deposit_by_id ds j"
proof (cases "deposit_by_id ds j")
  case None
  then show ?thesis
    unfolding deposit_by_id_def set_approved_def by (subst find_map_same_key) simp_all
next
  case (Some dp)
  with assms deposit_by_id_key [OF Some] show ?thesis
    unfolding deposit_by_id_def set_approved_def by (subst find_map_same_key) simp_all
qed

lemma other_bet:
  assumes "j \<noteq> i"
  shows "bet_by_id (set_settled i n bs) j = bet_by_id bs j"
proof (cases "bet_by_id bs j")
  case None
  then show ?thesis
    unfolding bet_by_id_def set_settled_def by (subst find_map_same_key) simp_all
next
  case (Some b)
  with assms bet_by_id_key [OF Some] show ?thesis
    unfolding bet_by_id_def set_settled_def by (subst find_map_same_key) simp_all
qed

text \<open>The committing path of each of the three transactions.\<close>

lemma approve_commits:
  assumes "fault e = None" and "num_truthy n" and "pg_int4 n = Some i"
    and "deposit_by_id (deposits d) i = Some dep" and "d_status dep \<noteq> ''approved''"
    and "references_user (users d) (jwt_id usr)"
  shows "post_deposits_approve e usr (Some (VNum n)) d =
           (Json 200 (JObj [(''success'', JBool True),
                            (''newBalance'', JNum (num_add (case user_where_id (users d) (d_user_id dep) of
                                                             None \<Rightarrow> Fin 0 | Some u \<Rightarrow> balance_or_0 u)
                                                            (d_amount dep)))]),
            d\<lparr>users := set_balance_where_id (d_user_id dep)
                         (num_add (case user_where_id (users d) (d_user_id dep) of
                                     None \<Rightarrow> Fin 0 | Some u \<Rightarrow> balance_or_0 u) (d_amount dep))
                         (users d),
              deposits := set_approved i (jwt_id usr) (now e) (deposits d)\<rparr>)"
  using assms by (simp add: post_deposits_approve_def client_query_def Let_def)

lemma approve_conflict:
  assumes "fault e = None" and "num_truthy n" and "pg_int4 n = Some i"
    and "deposit_by_id (deposits d) i = Some dep" and "d_status dep = ''approved''"
  shows "post_deposits_approve e usr (Some (VNum n)) d = (error_json 400 ''Already approved'', d)"
  using assms by (simp add: post_deposits_approve_def client_query_def)

lemma approve_conflict_state:
  assumes "deposit_by_id (deposits d) i = Some dep" and "d_status dep = ''approved''"
    and "pg_int4 n = Some i"
  shows "snd (post_deposits_approve e usr (Some (VNum n)) d) = d"
  using assms by (simp add: post_deposits_approve_def client_query_def)

lemma payout_commits:
  assumes "fault e = None" and "num_truthy bid" and "num_truthy am" and "pg_int4 bid = Some i"
    and "bet_by_id (bets d) i = Some bet" and "b_status bet \<noteq> ''settled''"
    and "user_by_id (users d) (b_user_id bet) = Some u"
  shows "post_bets_payout e (Some (VNum bid)) (Some (VNum am)) d =
           (Json 200 (JObj [(''success'', JBool True)]),
            d\<lparr>users := set_balance (b_user_id bet) (num_add (balance_or_0 u) am) (users d),
              bets := set_settled i am (bets d)\<rparr>)"
  using assms by (simp add: post_bets_payout_def client_query_def Let_def)

lemma payout_conflict:
  assumes "fault e = None" and "num_truthy bid" and "js_truthy av" and "pg_int4 bid = Some i"
    and "bet_by_id (bets d) i = Some bet" and "b_status bet = ''settled''"
  shows "post_bets_payout e (Some (VNum bid)) (Some av) d = (error_json 400 ''Already settled'', d)"
  using assms by (simp add: post_bets_payout_def client_query_def)

lemma payout_conflict_state:
  assumes "bet_by_id (bets d) i = Some bet" and "b_status bet = ''settled''" and "pg_int4 bid = Some i"
  shows "snd (post_bets_payout e (Some (VNum bid)) am d) = d"
  using assms by (cases am) (simp_all add: post_bets_payout_def client_query_def)

lemma place_commits:
  assumes "fault e = None" and "num_truthy mid" and "num_truthy st" and "\<not> num_le st (Fin 0)"
    and "jwt_id usr = Some uid" and "user_by_id (users d) uid = Some u"
    and "\<not> num_less (balance_or_0 u) st"
    and "pg_int4 mid = Some m" and "match_by_id (matches d) m = Some mt"
    and "nextval (bets_id_seq d) = Some i" and "bet_by_id (bets d) i = None"
  shows "post_bets_place e usr (Some (VNum mid)) (Some (VNum st)) d =
           (Json 200 (JObj [(''success'', JBool True), (''betId'', json_int i),
                            (''newBalance'', JNum (num_sub (balance_or_0 u) st))]),
            d\<lparr>users := set_balance uid (num_sub (balance_or_0 u) st) (users d),
              bets := bets d @ [\<lparr>b_id = i, b_user_id = uid, b_match_id = m, b_stake = st,
                                 b_status = ''open'', b_payout = Some (Fin 0),
                                 b_created_at = now e\<rparr>],
              bets_id_seq := i\<rparr>)"
  using assms by (simp add: post_bets_place_def client_query_def Let_def)

lemma place_insufficient:
  assumes "fault e = None" and "num_truthy mid" and "num_truthy st" and "\<not> num_le st (Fin 0)"
    and "jwt_id usr = Some uid" and "user_by_id (users d) uid = Some u"
    and "num_less (balance_or_0 u) st"
  shows "post_bets_place e usr (Some (VNum mid)) (Some (VNum st)) d =
           (error_json 400 ''Insufficient balance'', d)"
  using assms by (simp add: post_bets_place_def client_query_def Let_def)

lemma status_error_json [simp]: "status_of (error_json c m) = c"
  by (simp add: error_json_def)

lemma status_server_error [simp]: "status_of server_error = 500"
  by (simp add: server_error_def)

section \<open>Approving a deposit\<close>

lemma admin_has_id: "adminMiddleware e usr d = None \<Longrightarrow> \<exists>a. jwt_id usr = Some a"
  by (auto simp: adminMiddleware_def user_where_id_def split: if_splits option.splits)

text \<open>
  C3, as the code has it. An administrator approves a pending deposit whose owner has the
  balance \<open>b\<close>: the call answers 200 with the new balance, the owner's balance becomes the
  Number \<^verbatim>\<open>b + amount\<close>, that is, the sum rounded to double precision (the sum itself when
  it is a double), nobody else's balance changes, and the deposit is approved with
  \<^verbatim>\<open>approved_by\<close> and \<^verbatim>\<open>approved_at\<close> set, no other deposit being touched. Every later
  call on the same id leaves the database as it is and, when the store does not fail,
  answers 400 \<^verbatim>\<open>Already approved\<close>.
\<close>

theorem approve_deposit_credits_once:
  assumes admin: "adminMiddleware e usr d = None"
    and quiet: "fault e = None"
    and ident: "num_truthy n" "pg_int4 n = Some i"
    and dep: "deposit_by_id (deposits d) i = Some dep" "d_status dep = ''pending''"
    and owner: "d_user_id dep = Some ow" "user_by_id (users d) ow = Some u" "u_balance u = Some b"
  shows "\<exists>d'. post_deposits_approve e usr (Some (VNum n)) d =
                 (Json 200 (JObj [(''success'', JBool True),
                                  (''newBalance'', JNum (num_add b (d_amount dep)))]), d')
            \<and> user_by_id (users d') ow = Some (u\<lparr>u_balance := Some (num_add b (d_amount dep))\<rparr>)
            \<and> (\<forall>j. j \<noteq> ow \<longrightarrow> user_by_id (users d') j = user_by_id (users d) j)
            \<and> deposit_by_id (deposits d') i =
                 Some (dep\<lparr>d_status := ''approved'', d_approved_by := jwt_id usr,
                           d_approved_at := Some (now e)\<rparr>)
            \<and> (\<exists>a. jwt_id usr = Some a)
            \<and> (\<forall>j. j \<noteq> i \<longrightarrow> deposit_by_id (deposits d') j = deposit_by_id (deposits d) j)
            \<and> (\<forall>e' usr'. fault e' = None \<longrightarrow>
                   post_deposits_approve e' usr' (Some (VNum n)) d' =
                     (error_json 400 ''Already approved'', d'))
            \<and> (\<forall>e' usr'. snd (post_deposits_approve e' usr' (Some (VNum n)) d') = d')
            \<and> (\<forall>x y. b = Fin x \<and> d_amount dep = Fin y \<and> is_double (x + y) \<longrightarrow>
                   num_add b (d_amount dep) = Fin (x + y))"
proof -
  let ?nb = "num_add b (d_amount dep)"
  let ?d' = "d\<lparr>users := set_balance ow ?nb (users d),
                deposits := set_approved i (jwt_id usr) (now e) (deposits d)\<rparr>"
  let ?dep' = "dep\<lparr>d_status := ''approved'', d_approved_by := jwt_id usr,
                    d_approved_at := Some (now e)\<rparr>"
  have adm: "references_user (users d) (jwt_id usr)" using admin by (rule admin_has_row)
  have named: "\<exists>a. jwt_id usr = Some a" using admin by (rule admin_has_id)
  have pending: "d_status dep \<noteq> ''approved''" using dep(2) by simp
  have first: "post_deposits_approve e usr (Some (VNum n)) d =
                 (Json 200 (JObj [(''success'', JBool True), (''newBalance'', JNum ?nb)]), ?d')"
    using approve_commits [OF quiet ident dep(1) pending adm] owner
    by (simp add: balance_or_0_def user_where_id_def set_balance_where_id_def)
  have credited: "user_by_id (users ?d') ow = Some (u\<lparr>u_balance := Some ?nb\<rparr>)"
    using owner(2) by (simp add: credited_user)
  have others: "\<forall>j. j \<noteq> ow \<longrightarrow> user_by_id (users ?d') j = user_by_id (users d) j"
    by (simp add: other_user)
  have marked: "deposit_by_id (deposits ?d') i = Some ?dep'"
    using dep(1) by (simp add: approved_deposit)
  have rest: "\<forall>j. j \<noteq> i \<longrightarrow> deposit_by_id (deposits ?d') j = deposit_by_id (deposits d) j"
    by (simp add: other_deposit)
  have st: "d_status ?dep' = ''approved''" by simp
  have again: "\<forall>e' usr'. fault e' = None \<longrightarrow>
                 post_deposits_approve e' usr' (Some (VNum n)) ?d' =
                   (error_json 400 ''Already approved'', ?d')"
    using approve_conflict [OF _ ident marked st] by blast
  have fixed: "\<forall>e' usr'. snd (post_deposits_approve e' usr' (Some (VNum n)) ?d') = ?d'"
    using approve_conflict_state [OF marked st ident(2)] by blast
  have exact: "\<forall>x y. b = Fin x \<and> d_amount dep = Fin y \<and> is_double (x + y) \<longrightarrow> ?nb = Fin (x + y)"
    by (auto simp: rnd_exact)
  from first credited others marked named rest again fixed exact show ?thesis by blast
qed

theorem approve_deposit_credits_once_witness:
  "adminMiddleware (quiet 9) admin_identity (ledger (Fin 100) (Fin 50)) = None \<and>
   fault (quiet 9) = None \<and> num_truthy (Fin 1) \<and> pg_int4 (Fin 1) = Some 1 \<and>
   map_option d_status (deposit_by_id (deposits (ledger (Fin 100) (Fin 50))) 1) = Some ''pending'' \<and>
   map_option d_user_id (deposit_by_id (deposits (ledger (Fin 100) (Fin 50))) 1) = Some (Some 2) \<and>
   map_option u_balance (user_by_id (users (ledger (Fin 100) (Fin 50))) 2) = Some (Some (Fin 100)) \<and>
   fst (post_deposits_approve (quiet 9) admin_identity (Some (VNum (Fin 1)))
          (ledger (Fin 100) (Fin 50))) =
     Json 200 (JObj [(''success'', JBool True), (''newBalance'', JNum (Fin 150))])"
proof -
  let ?d = "ledger (Fin 100) (Fin 50)"
  let ?dep = "\<lparr>d_id = 1, d_user_id = Some 2, d_amount = Fin 50, d_status = ''pending'',
               d_created_at = 4, d_approved_by = None, d_approved_at = None\<rparr>"
  let ?u = "\<lparr>u_id = 2, u_email = ''a@x.com'', u_password_hash = ''$2b$10$p'',
             u_full_name = Some ''Ann'', u_created_at = 1, u_balance = Some (Fin 100),
             u_is_admin = Some False\<rparr>"
  have h1: "adminMiddleware (quiet 9) admin_identity ?d = None"
    by (simp add: handler_defs store_defs demo_defs)
  have h2: "fault (quiet 9) = None" by (simp add: quiet_def)
  have h3: "num_truthy (Fin 1)" by simp
  have h4: "pg_int4 (Fin 1) = Some 1" by (simp add: pg_int4_def)
  have h5: "deposit_by_id (deposits ?d) 1 = Some ?dep" by (simp add: store_defs demo_defs)
  have h6: "d_status ?dep = ''pending''" by simp
  have h7: "d_user_id ?dep = Some 2" by simp
  have h8: "user_by_id (users ?d) 2 = Some ?u" by (simp add: store_defs demo_defs)
  have h9: "u_balance ?u = Some (Fin 100)" by simp
  have sum: "rnd 150 = Fin 150" by (simp add: num_eval)
  from approve_deposit_credits_once [OF h1 h2 h3 h4 h5 h6 h7 h8 h9]
  have "fst (post_deposits_approve (quiet 9) admin_identity (Some (VNum (Fin 1))) ?d) =
          Json 200 (JObj [(''success'', JBool True), (''newBalance'', JNum (Fin 150))])"
    by (auto simp: sum)
  with h1 h2 h3 h4 h5 h8 show ?thesis by simp
qed

text \<open>
  The balance is not always the exact sum: with the balance \<^verbatim>\<open>0.1\<close> and a deposit of
  \<^verbatim>\<open>0.2\<close> the new balance is \<^verbatim>\<open>0.30000000000000004\<close>, which is neither the sum of the two
  operands nor the Number \<^verbatim>\<open>0.3\<close>.
\<close>

theorem approve_deposit_inexact_counterexample:
  "map_option u_balance
     (user_by_id (users (snd (post_deposits_approve (quiet 9) admin_identity (Some (VNum (Fin 1)))
                                (ledger (rnd (1 / 10)) (rnd (2 / 10)))))) 2)
     = Some (Some (Fin (1351079888211149 / 4503599627370496))) \<and>
   rnd (1 / 10) = Fin (3602879701896397 / 36028797018963968) \<and>
   rnd (2 / 10) = Fin (3602879701896397 / 18014398509481984) \<and>
   (1351079888211149 / 4503599627370496 :: rat)
     \<noteq> 3602879701896397 / 36028797018963968 + 3602879701896397 / 18014398509481984 \<and>
   rnd (3 / 10) \<noteq> Fin (1351079888211149 / 4503599627370496)"
  by (simp add: handler_defs store_defs demo_defs num_eval)

lemma ownerless_ledger_eq:
  "ownerless_ledger =
     \<lparr>users =
        [\<lparr>u_id = 1, u_email = ''admin@x.com'', u_password_hash = ''$2b$10$root'',
          u_full_name = None, u_created_at = 0, u_balance = Some (Fin 0), u_is_admin = Some True\<rparr>],
      matches = [], bets = [],
      deposits =
        [\<lparr>d_id = 1, d_user_id = None, d_amount = Fin 50, d_status = ''pending'', d_created_at = 1,
          d_approved_by = None, d_approved_at = None\<rparr>],
      users_id_seq = 1, matches_id_seq = 0, bets_id_seq = 0, deposits_id_seq = 1\<rparr>"
  by (simp add: ownerless_ledger_def ownerless_session_def handler_defs store_defs demo_defs Let_def)

text \<open>
  C2, as the code has it. When the read of the owner of a pending deposit finds no row
  (under the foreign key of \<^verbatim>\<open>deposits.user_id\<close>: when that column is \<^verbatim>\<open>NULL\<close>), the
  approval does not fail: the handler takes the current balance as \<open>0\<close>, the balance
  update touches no row, the deposit is marked approved and the call answers 200 with
  \<^verbatim>\<open>newBalance\<close> the Number \<^verbatim>\<open>0 + amount\<close>. The table \<^verbatim>\<open>users\<close> is as before: nobody is
  credited.
\<close>

theorem approve_ownerless_deposit_succeeds:
  assumes admin: "adminMiddleware e usr d = None"
    and quiet: "fault e = None"
    and ident: "num_truthy n" "pg_int4 n = Some i"
    and dep: "deposit_by_id (deposits d) i = Some dep" "d_status dep = ''pending''"
    and ownerless: "user_where_id (users d) (d_user_id dep) = None"
  shows "post_deposits_approve e usr (Some (VNum n)) d =
           (Json 200 (JObj [(''success'', JBool True),
                            (''newBalance'', JNum (num_add (Fin 0) (d_amount dep)))]),
            d\<lparr>deposits := set_approved i (jwt_id usr) (now e) (deposits d)\<rparr>)
         \<and> deposit_by_id (set_approved i (jwt_id usr) (now e) (deposits d)) i =
             Some (dep\<lparr>d_status := ''approved'', d_approved_by := jwt_id usr,
                       d_approved_at := Some (now e)\<rparr>)"
proof -
  have adm: "references_user (users d) (jwt_id usr)" using admin by (rule admin_has_row)
  have pending: "d_status dep \<noteq> ''approved''" using dep(2) by simp
  have "post_deposits_approve e usr (Some (VNum n)) d =
          (Json 200 (JObj [(''success'', JBool True),
                           (''newBalance'', JNum (num_add (Fin 0) (d_amount dep)))]),
           d\<lparr>users := set_balance_where_id (d_user_id dep) (num_add (Fin 0) (d_amount dep)) (users d),
             deposits := set_approved i (jwt_id usr) (now e) (deposits d)\<rparr>)"
    using approve_commits [OF quiet ident dep(1) pending adm] ownerless by simp
  moreover have "set_balance_where_id (d_user_id dep) (num_add (Fin 0) (d_amount dep)) (users d)
                   = users d"
    using ownerless
    by (cases "d_user_id dep") (simp_all add: set_balance_where_id_def user_where_id_def
                                  set_balance_absent)
  ultimately show ?thesis
    using dep(1) by (simp add: approved_deposit)
qed

theorem approve_ownerless_deposit_succeeds_witness:
  "adminMiddleware (quiet 2) admin_identity ownerless_ledger = None \<and>
   fault (quiet 2) = None \<and> num_truthy (Fin 1) \<and> pg_int4 (Fin 1) = Some 1 \<and>
   map_option d_status (deposit_by_id (deposits ownerless_ledger) 1) = Some ''pending'' \<and>
   map_option d_user_id (deposit_by_id (deposits ownerless_ledger) 1) = Some None \<and>
   post_deposits_approve (quiet 2) admin_identity (Some (VNum (Fin 1))) ownerless_ledger =
     (Json 200 (JObj [(''success'', JBool True), (''newBalance'', JNum (Fin 50))]),
      ownerless_ledger\<lparr>deposits := set_approved 1 (Some 1) 2 (deposits ownerless_ledger)\<rparr>)"
proof -
  let ?dep = "\<lparr>d_id = 1, d_user_id = None, d_amount = Fin 50, d_status = ''pending'',
               d_created_at = 1, d_approved_by = None, d_approved_at = None\<rparr>"
  have h1: "adminMiddleware (quiet 2) admin_identity ownerless_ledger = None"
    by (simp add: ownerless_ledger_eq handler_defs store_defs demo_defs)
  have h2: "fault (quiet 2) = None" by (simp add: quiet_def)
  have h3: "num_truthy (Fin 1)" by simp
  have h4: "pg_int4 (Fin 1) = Some 1" by (simp add: pg_int4_def)
  have h5: "deposit_by_id (deposits ownerless_ledger) 1 = Some ?dep"
    by (simp add: ownerless_ledger_eq store_defs)
  have h6: "d_status ?dep = ''pending''" by simp
  have h7: "user_where_id (users ownerless_ledger) (d_user_id ?dep) = None"
    by (simp add: user_where_id_def)
  have sum: "rnd 50 = Fin 50" by (simp add: num_eval)
  from approve_ownerless_deposit_succeeds [OF h1 h2 h3 h4 h5 h6 h7]
  have "post_deposits_approve (quiet 2) admin_identity (Some (VNum (Fin 1))) ownerless_ledger =
     (Json 200 (JObj [(''success'', JBool True), (''newBalance'', JNum (Fin 50))]),
      ownerless_ledger\<lparr>deposits := set_approved 1 (Some 1) 2 (deposits ownerless_ledger)\<rparr>)"
    by (simp add: sum admin_identity_def quiet_def)
  with h1 h2 h3 h4 h5 show ?thesis by simp
qed

text \<open>
  After the session \<open>ownerless_session\<close>, served from the empty database through the routes,
  the deposit has no owner. The administrator's request to approve it is answered 200 with
  \<^verbatim>\<open>newBalance\<close> 50 and the deposit becomes approved; it does not fail with 404, it does
  not stay pending, and no row of \<^verbatim>\<open>users\<close> changes.
\<close>

theorem approve_ownerless_deposit_counterexample:
  "map_option d_user_id (deposit_by_id (deposits ownerless_ledger) 1) = Some None \<and>
   map_option d_status (deposit_by_id (deposits ownerless_ledger) 1) = Some ''pending'' \<and>
   fst (serve demo_lib demo_config (quiet 2) (Some ''Bearer A'')
          (PostDepositsApprove (Some (VNum (Fin 1)))) ownerless_ledger) =
     Json 200 (JObj [(''success'', JBool True), (''newBalance'', JNum (Fin 50))]) \<and>
   map_option d_status
     (deposit_by_id (deposits (snd (serve demo_lib demo_config (quiet 2) (Some ''Bearer A'')
                                      (PostDepositsApprove (Some (VNum (Fin 1)))) ownerless_ledger))) 1)
     = Some ''approved'' \<and>
   users (snd (serve demo_lib demo_config (quiet 2) (Some ''Bearer A'')
                 (PostDepositsApprove (Some (VNum (Fin 1)))) ownerless_ledger))
     = users ownerless_ledger"
  by (simp add: ownerless_ledger_eq handler_defs store_defs demo_defs num_eval)

section \<open>Settling a bet\<close>

text \<open>
  C6, as the code has it. For an open bet whose owner has the balance \<open>b\<close>, the first payout
  with a truthy amount \<open>a\<close> (not \<open>0\<close>, not NaN) answers 200, sets the owner's balance to the
  Number \<^verbatim>\<open>b + a\<close> (the sum rounded to double precision, the sum itself when it is a double),
  changes nobody else's balance and sets the bet to settled with payout \<open>a\<close>, no other bet
  being touched. Every later call on the same bet leaves the database as it is and, with
  a truthy amount and a store that does not fail, answers 400 \<^verbatim>\<open>Already settled\<close>.
\<close>

theorem settle_bet_credits_once:
  assumes quiet: "fault e = None"
    and ident: "num_truthy bid" "pg_int4 bid = Some i"
    and amount: "num_truthy a"
    and bet: "bet_by_id (bets d) i = Some bet" "b_status bet = ''open''"
    and owner: "user_by_id (users d) (b_user_id bet) = Some u" "u_balance u = Some b"
  shows "\<exists>d'. post_bets_payout e (Some (VNum bid)) (Some (VNum a)) d =
                 (Json 200 (JObj [(''success'', JBool True)]), d')
            \<and> user_by_id (users d') (b_user_id bet) = Some (u\<lparr>u_balance := Some (num_add b a)\<rparr>)
            \<and> (\<forall>j. j \<noteq> b_user_id bet \<longrightarrow> user_by_id (users d') j = user_by_id (users d) j)
            \<and> bet_by_id (bets d') i = Some (bet\<lparr>b_status := ''settled'', b_payout := Some a\<rparr>)
            \<and> (\<forall>j. j \<noteq> i \<longrightarrow> bet_by_id (bets d') j = bet_by_id (bets d) j)
            \<and> (\<forall>e' av. fault e' = None \<and> js_truthy av \<longrightarrow>
                   post_bets_payout e' (Some (VNum bid)) (Some av) d' =
                     (error_json 400 ''Already settled'', d'))
            \<and> (\<forall>e' a'. snd (post_bets_payout e' (Some (VNum bid)) a' d') = d')
            \<and> (\<forall>x y. b = Fin x \<and> a = Fin y \<and> is_double (x + y) \<longrightarrow> num_add b a = Fin (x + y))"
proof -
  let ?nb = "num_add b a"
  let ?d' = "d\<lparr>users := set_balance (b_user_id bet) ?nb (users d), bets := set_settled i a (bets d)\<rparr>"
  let ?bet' = "bet\<lparr>b_status := ''settled'', b_payout := Some a\<rparr>"
  have unsettled: "b_status bet \<noteq> ''settled''" using bet(2) by simp
  have first: "post_bets_payout e (Some (VNum bid)) (Some (VNum a)) d =
                 (Json 200 (JObj [(''success'', JBool True)]), ?d')"
    using payout_commits [OF quiet ident(1) amount ident(2) bet(1) unsettled owner(1)] owner(2)
    by (simp add: balance_or_0_def)
  have credited: "user_by_id (users ?d') (b_user_id bet) = Some (u\<lparr>u_balance := Some ?nb\<rparr>)"
    using owner(1) by (simp add: credited_user)
  have others: "\<forall>j. j \<noteq> b_user_id bet \<longrightarrow> user_by_id (users ?d') j = user_by_id (users d) j"
    by (simp add: other_user)
  have marked: "bet_by_id (bets ?d') i = Some ?bet'"
    using bet(1) by (simp add: settled_bet)
  have rest: "\<forall>j. j \<noteq> i \<longrightarrow> bet_by_id (bets ?d') j = bet_by_id (bets d) j"
    by (simp add: other_bet)
  have st: "b_status ?bet' = ''settled''" by simp
  have again: "\<forall>e' av. fault e' = None \<and> js_truthy av \<longrightarrow>
                 post_bets_payout e' (Some (VNum bid)) (Some av) ?d' =
                   (error_json 400 ''Already settled'', ?d')"
    using payout_conflict [OF _ ident(1) _ ident(2) marked st] by blast
  have fixed: "\<forall>e' a'. snd (post_bets_payout e' (Some (VNum bid)) a' ?d') = ?d'"
    using payout_conflict_state [OF marked st ident(2)] by blast
  have exact: "\<forall>x y. b = Fin x \<and> a = Fin y \<and> is_double (x + y) \<longrightarrow> ?nb = Fin (x + y)"
    by (auto simp: rnd_exact)
  from first credited others marked rest again fixed exact show ?thesis by blast
qed

theorem settle_bet_credits_once_witness:
  "fault (quiet 9) = None \<and> num_truthy (Fin 1) \<and> pg_int4 (Fin 1) = Some 1 \<and> num_truthy (Fin 20) \<and>
   map_option b_status (bet_by_id (bets (ledger (Fin 100) (Fin 50))) 1) = Some ''open'' \<and>
   map_option u_balance (user_by_id (users (ledger (Fin 100) (Fin 50))) 2) = Some (Some (Fin 100)) \<and>
   map_option u_balance
     (user_by_id (users (snd (post_bets_payout (quiet 9) (Some (VNum (Fin 1))) (Some (VNum (Fin 20)))
                                (ledger (Fin 100) (Fin 50))))) 2) = Some (Some (Fin 120))"
proof -
  let ?d = "ledger (Fin 100) (Fin 50)"
  let ?bet = "\<lparr>b_id = 1, b_user_id = 2, b_match_id = 1, b_stake = Fin 10, b_status = ''open'',
               b_payout = Some (Fin 0), b_created_at = 3\<rparr>"
  let ?u = "\<lparr>u_id = 2, u_email = ''a@x.com'', u_password_hash = ''$2b$10$p'',
             u_full_name = Some ''Ann'', u_created_at = 1, u_balance = Some (Fin 100),
             u_is_admin = Some False\<rparr>"
  have h1: "fault (quiet 9) = None" by (simp add: quiet_def)
  have h2: "num_truthy (Fin 1)" by simp
  have h3: "pg_int4 (Fin 1) = Some 1" by (simp add: pg_int4_def)
  have h4: "num_truthy (Fin 20)" by simp
  have h5: "bet_by_id (bets ?d) 1 = Some ?bet" by (simp add: store_defs demo_defs)
  have h6: "b_status ?bet = ''open''" by simp
  have h7: "user_by_id (users ?d) (b_user_id ?bet) = Some ?u" by (simp add: store_defs demo_defs)
  have h8: "u_balance ?u = Some (Fin 100)" by simp
  have sum: "rnd 120 = Fin 120" by (simp add: num_eval)
  from settle_bet_credits_once [OF h1 h2 h3 h4 h5 h6 h7 h8]
  have "map_option u_balance
     (user_by_id (users (snd (post_bets_payout (quiet 9) (Some (VNum (Fin 1))) (Some (VNum (Fin 20))) ?d))) 2)
       = Some (Some (Fin 120))"
    by (auto simp: sum)
  with h1 h2 h3 h4 h5 h7 show ?thesis by simp
qed

text \<open>
  Two inputs at which the claim as first stated fails: the amount \<open>0\<close> on an open bet is
  rejected with 400 \<^verbatim>\<open>Missing params\<close>, and the amount \<open>1\<close> paid to a balance of
  \<open>2\<^sup>5\<^sup>3\<close> leaves the balance at \<open>2\<^sup>5\<^sup>3\<close>.
\<close>

theorem settle_bet_counterexample:
  "map_option b_status (bet_by_id (bets (ledger (Fin 100) (Fin 50))) 1) = Some ''open'' \<and>
   post_bets_payout (quiet 9) (Some (VNum (Fin 1))) (Some (VNum (Fin 0))) (ledger (Fin 100) (Fin 50)) =
     (error_json 400 ''Missing params'', ledger (Fin 100) (Fin 50)) \<and>
   map_option u_balance
     (user_by_id (users (snd (post_bets_payout (quiet 9) (Some (VNum (Fin 1))) (Some (VNum (Fin 1)))
                                (ledger (Fin 9007199254740992) (Fin 50))))) 2)
     = Some (Some (Fin 9007199254740992))"
  by (simp add: handler_defs store_defs demo_defs num_eval)

text \<open>
  C10, as the code has it. \<^verbatim>\<open>POST /api/bets/payout\<close> with an amount that is falsy in
  JavaScript (missing or \<^verbatim>\<open>null\<close>, the number \<open>0\<close> or NaN, the empty string, \<^verbatim>\<open>false\<close>)
  answers 400 \<^verbatim>\<open>Missing params\<close> and leaves the database as it is. It does so whatever the
  environment, also when the store would fail at the first statement: the check comes
  before \<^verbatim>\<open>BEGIN\<close>. The check is on truthiness, not on the value \<^verbatim>\<open>Number(amount)\<close>.
\<close>

theorem payout_rejects_falsy_amount:
  "\<not> truthy amount \<Longrightarrow>
   post_bets_payout e betId amount d = (error_json 400 ''Missing params'', d)"
  by (cases amount; cases betId) (simp_all add: post_bets_payout_def truthy_def)

theorem payout_rejects_falsy_amount_witness:
  "\<not> truthy None \<and> \<not> truthy (Some (VNum (Fin 0))) \<and> \<not> truthy (Some (VNum NaN)) \<and>
   \<not> truthy (Some (VStr [])) \<and> \<not> truthy (Some (VBool False)) \<and>
   post_bets_payout (failing 9 0) (Some (VNum (Fin 1))) None (ledger (Fin 0) (Fin 50)) =
     (error_json 400 ''Missing params'', ledger (Fin 0) (Fin 50)) \<and>
   post_bets_payout (failing 9 0) (Some (VNum (Fin 1))) (Some (VNum (Fin 0))) (ledger (Fin 0) (Fin 50)) =
     (error_json 400 ''Missing params'', ledger (Fin 0) (Fin 50)) \<and>
   post_bets_payout (failing 9 0) (Some (VNum (Fin 1))) (Some (VNum NaN)) (ledger (Fin 0) (Fin 50)) =
     (error_json 400 ''Missing params'', ledger (Fin 0) (Fin 50)) \<and>
   post_bets_payout (failing 9 0) (Some (VNum (Fin 1))) (Some (VStr [])) (ledger (Fin 0) (Fin 50)) =
     (error_json 400 ''Missing params'', ledger (Fin 0) (Fin 50)) \<and>
   post_bets_payout (failing 9 0) (Some (VNum (Fin 1))) (Some (VBool False)) (ledger (Fin 0) (Fin 50)) =
     (error_json 400 ''Missing params'', ledger (Fin 0) (Fin 50))"
  using payout_rejects_falsy_amount
          [of None "failing 9 0" "Some (VNum (Fin 1))" "ledger (Fin 0) (Fin 50)"]
        payout_rejects_falsy_amount
          [of "Some (VNum (Fin 0))" "failing 9 0" "Some (VNum (Fin 1))" "ledger (Fin 0) (Fin 50)"]
        payout_rejects_falsy_amount
          [of "Some (VNum NaN)" "failing 9 0" "Some (VNum (Fin 1))" "ledger (Fin 0) (Fin 50)"]
        payout_rejects_falsy_amount
          [of "Some (VStr [])" "failing 9 0" "Some (VNum (Fin 1))" "ledger (Fin 0) (Fin 50)"]
        payout_rejects_falsy_amount
          [of "Some (VBool False)" "failing 9 0" "Some (VNum (Fin 1))" "ledger (Fin 0) (Fin 50)"]
  by (simp add: truthy_def)

text \<open>
  An amount equal to \<open>0\<close> is not always rejected: the string \<^verbatim>\<open>"0"\<close> is truthy and
  \<^verbatim>\<open>Number("0")\<close> is \<open>0\<close>. With \<^verbatim>\<open>{betId: 1, amount: "0"}\<close> the handler answers 200, credits
  \<open>0\<close> and settles the bet with payout \<open>0\<close>.
\<close>

theorem payout_zero_string_counterexample:
  "truthy (Some (VStr ''0'')) \<and> Number (quiet 9) (VStr ''0'') = Fin 0 \<and>
   map_option b_status (bet_by_id (bets (ledger (Fin 100) (Fin 50))) 1) = Some ''open'' \<and>
   fst (post_bets_payout (quiet 9) (Some (VNum (Fin 1))) (Some (VStr ''0'')) (ledger (Fin 100) (Fin 50)))
     = Json 200 (JObj [(''success'', JBool True)]) \<and>
   bet_by_id (bets (snd (post_bets_payout (quiet 9) (Some (VNum (Fin 1))) (Some (VStr ''0''))
                           (ledger (Fin 100) (Fin 50))))) 1
     = Some \<lparr>b_id = 1, b_user_id = 2, b_match_id = 1, b_stake = Fin 10, b_status = ''settled'',
             b_payout = Some (Fin 0), b_created_at = 3\<rparr>"
  by (simp add: truthy_def handler_defs store_defs demo_defs num_eval)

section \<open>Placing a bet\<close>

lemma positive_number:
  "num_less (Fin 0) st \<Longrightarrow> num_truthy st \<and> \<not> num_le st (Fin 0)"
  by (cases st) auto

lemma not_less_iff_le:
  "b \<noteq> NaN \<Longrightarrow> num_less (Fin 0) st \<Longrightarrow> (\<not> num_less b st) = num_le st b"
  by (cases b; cases st) auto

lemma num_sub_Fin: "num_sub (Fin x) (Fin y) = rnd (x - y)"
  by (simp add: num_sub_def)

text \<open>
  C4, as the code has it. The caller has a row with a balance \<open>b\<close> that is a number, the
  stake \<open>s\<close> is positive, the match exists, the store does not fail and the sequence of
  bet ids hands out a fresh id \<open>i\<close>. Then the call succeeds exactly when \<open>s \<le> b\<close>. On
  success the balance becomes the Number \<^verbatim>\<open>b - s\<close> (the difference rounded to double
  precision, the difference itself when it is a double) and exactly one row is added to
  \<^verbatim>\<open>bets\<close>, open, with payout 0, for that match; otherwise the call answers 400
  \<^verbatim>\<open>Insufficient balance\<close> and the database is unchanged.
\<close>

theorem place_bet_debits_iff_covered:
  assumes quiet: "fault e = None"
    and stake: "num_less (Fin 0) st"
    and mtch: "num_truthy mid" "pg_int4 mid = Some m" "match_by_id (matches d) m = Some mt"
    and caller: "jwt_id usr = Some uid" "user_by_id (users d) uid = Some u"
                "u_balance u = Some b" "b \<noteq> NaN"
    and fresh: "nextval (bets_id_seq d) = Some i" "bet_by_id (bets d) i = None"
  shows "(status_of (fst (post_bets_place e usr (Some (VNum mid)) (Some (VNum st)) d)) = 200
            \<longleftrightarrow> num_le st b)
       \<and> (num_le st b \<longrightarrow>
            post_bets_place e usr (Some (VNum mid)) (Some (VNum st)) d =
              (Json 200 (JObj [(''success'', JBool True), (''betId'', json_int i),
                               (''newBalance'', JNum (num_sub b st))]),
               d\<lparr>users := set_balance uid (num_sub b st) (users d),
                 bets := bets d @ [\<lparr>b_id = i, b_user_id = uid, b_match_id = m, b_stake = st,
                                    b_status = ''open'', b_payout = Some (Fin 0),
                                    b_created_at = now e\<rparr>],
                 bets_id_seq := i\<rparr>)
            \<and> user_by_id (set_balance uid (num_sub b st) (users d)) uid =
                Some (u\<lparr>u_balance := Some (num_sub b st)\<rparr>))
       \<and> (\<not> num_le st b \<longrightarrow>
            post_bets_place e usr (Some (VNum mid)) (Some (VNum st)) d =
              (error_json 400 ''Insufficient balance'', d))
       \<and> (\<forall>x y. b = Fin x \<and> st = Fin y \<and> is_double (x - y) \<longrightarrow> num_sub b st = Fin (x - y))"
proof -
  have pos: "num_truthy st" "\<not> num_le st (Fin 0)" using positive_number [OF stake] by simp_all
  have bal: "balance_or_0 u = b" using caller(3) by (simp add: balance_or_0_def)
  have iff: "(\<not> num_less b st) = num_le st b" using caller(4) stake by (rule not_less_iff_le)
  show ?thesis
  proof (cases "num_le st b")
    case True
    then have cov: "\<not> num_less (balance_or_0 u) st" using iff bal by simp
    have "post_bets_place e usr (Some (VNum mid)) (Some (VNum st)) d =
              (Json 200 (JObj [(''success'', JBool True), (''betId'', json_int i),
                               (''newBalance'', JNum (num_sub b st))]),
               d\<lparr>users := set_balance uid (num_sub b st) (users d),
                 bets := bets d @ [\<lparr>b_id = i, b_user_id = uid, b_match_id = m, b_stake = st,
                                    b_status = ''open'', b_payout = Some (Fin 0),
                                    b_created_at = now e\<rparr>],
                 bets_id_seq := i\<rparr>)"
      using place_commits [OF quiet mtch(1) pos caller(1,2) cov mtch(2,3) fresh] bal by simp
    with True caller(2) show ?thesis
      by (auto simp: credited_user num_sub_Fin rnd_exact)
  next
    case False
    then have short: "num_less (balance_or_0 u) st" using iff bal by simp
    have "post_bets_place e usr (Some (VNum mid)) (Some (VNum st)) d =
            (error_json 400 ''Insufficient balance'', d)"
      using place_insufficient [OF quiet mtch(1) pos caller(1,2) short] .
    with False show ?thesis
      by (auto simp: num_sub_Fin rnd_exact)
  qed
qed

theorem place_bet_debits_iff_covered_witness:
  "fault (quiet 9) = None \<and> num_less (Fin 0) (Fin 30) \<and> num_less (Fin 0) (Fin 300) \<and>
   num_truthy (Fin 1) \<and> pg_int4 (Fin 1) = Some 1 \<and>
   map_option m_id (match_by_id (matches (ledger (Fin 100) (Fin 50))) 1) = Some 1 \<and>
   jwt_id player_identity = Some 2 \<and>
   map_option u_balance (user_by_id (users (ledger (Fin 100) (Fin 50))) 2) = Some (Some (Fin 100)) \<and>
   nextval (bets_id_seq (ledger (Fin 100) (Fin 50))) = Some 2 \<and>
   bet_by_id (bets (ledger (Fin 100) (Fin 50))) 2 = None \<and>
   fst (post_bets_place (quiet 9) player_identity (Some (VNum (Fin 1))) (Some (VNum (Fin 30)))
          (ledger (Fin 100) (Fin 50)))
     = Json 200 (JObj [(''success'', JBool True), (''betId'', json_int 2), (''newBalance'', JNum (Fin 70))]) \<and>
   post_bets_place (quiet 9) player_identity (Some (VNum (Fin 1))) (Some (VNum (Fin 300)))
     (ledger (Fin 100) (Fin 50))
     = (error_json 400 ''Insufficient balance'', ledger (Fin 100) (Fin 50))"
proof -
  let ?d = "ledger (Fin 100) (Fin 50)"
  let ?m = "\<lparr>m_id = 1, m_home = ''Gor'', m_away = ''AFC'', m_odds = Fin 2, m_created_at = 2\<rparr>"
  let ?u = "\<lparr>u_id = 2, u_email = ''a@x.com'', u_password_hash = ''$2b$10$p'',
             u_full_name = Some ''Ann'', u_created_at = 1, u_balance = Some (Fin 100),
             u_is_admin = Some False\<rparr>"
  have h1: "fault (quiet 9) = None" by (simp add: quiet_def)
  have h2: "num_less (Fin 0) (Fin 30)" and h2': "num_less (Fin 0) (Fin 300)" by simp_all
  have h3: "num_truthy (Fin 1)" by simp
  have h4: "pg_int4 (Fin 1) = Some 1" by (simp add: pg_int4_def)
  have h5: "match_by_id (matches ?d) 1 = Some ?m" by (simp add: store_defs demo_defs)
  have h6: "jwt_id player_identity = Some 2" by (simp add: player_identity_def)
  have h6': "user_by_id (users ?d) 2 = Some ?u" by (simp add: store_defs demo_defs)
  have h7: "u_balance ?u = Some (Fin 100)" by simp
  have h8: "Fin 100 \<noteq> NaN" by simp
  have h9: "nextval (bets_id_seq ?d) = Some 2" by (simp add: store_defs demo_defs)
  have h10: "bet_by_id (bets ?d) 2 = None" by (simp add: store_defs demo_defs)
  have le: "num_le (Fin 30) (Fin 100)" and nle: "\<not> num_le (Fin 300) (Fin 100)" by simp_all
  have diff: "num_sub (Fin 100) (Fin 30) = Fin 70" by (simp add: num_sub_def num_eval)
  from place_bet_debits_iff_covered [OF h1 h2 h3 h4 h5 h6 h6' h7 h8 h9 h10] le
  have covered: "fst (post_bets_place (quiet 9) player_identity (Some (VNum (Fin 1)))
                        (Some (VNum (Fin 30))) ?d)
     = Json 200 (JObj [(''success'', JBool True), (''betId'', json_int 2), (''newBalance'', JNum (Fin 70))])"
    by (simp add: diff)
  from place_bet_debits_iff_covered [OF h1 h2' h3 h4 h5 h6 h6' h7 h8 h9 h10] nle
  have short: "post_bets_place (quiet 9) player_identity (Some (VNum (Fin 1)))
                 (Some (VNum (Fin 300))) ?d
     = (error_json 400 ''Insufficient balance'', ?d)"
    by blast
  from covered short h1 h2 h2' h3 h4 h5 h6 h6' h9 h10 show ?thesis by simp
qed

text \<open>
  The balance is not always the exact difference: a stake of \<open>2\<^sup>-\<^sup>6\<^sup>0\<close> (a double) on a
  balance of \<open>1\<close> is accepted, the bet is recorded, and the balance stays \<open>1\<close>.
\<close>

theorem place_bet_inexact_counterexample:
  "is_double (1 / 2 ^ 60) \<and>
   fst (post_bets_place (quiet 9) player_identity (Some (VNum (Fin 1))) (Some (VNum (Fin (1 / 2 ^ 60))))
          (ledger (Fin 1) (Fin 50)))
     = Json 200 (JObj [(''success'', JBool True), (''betId'', json_int 2), (''newBalance'', JNum (Fin 1))]) \<and>
   map_option u_balance
     (user_by_id (users (snd (post_bets_place (quiet 9) player_identity (Some (VNum (Fin 1)))
                                (Some (VNum (Fin (1 / 2 ^ 60)))) (ledger (Fin 1) (Fin 50))))) 2)
     = Some (Some (Fin 1)) \<and>
   (1 :: rat) \<noteq> 1 - 1 / 2 ^ 60"
  by (simp add: handler_defs store_defs demo_defs num_eval num_sub_def is_double_def)

text \<open>Every call ends in one of three ways: nothing changed, only the sequence moved, or both writes done.\<close>

lemma place_outcomes:
  "(\<exists>r. post_bets_place e usr mid st d = (r, d) \<and> status_of r \<noteq> 200)
   \<or> (\<exists>r i. post_bets_place e usr mid st d = (r, d\<lparr>bets_id_seq := i\<rparr>) \<and> status_of r \<noteq> 200)
   \<or> (\<exists>r u uid m i sv s. post_bets_place e usr mid st d =
         (r, d\<lparr>users := set_balance uid (num_sub (balance_or_0 u) (Number e sv)) (users d),
              bets := bets d @ [\<lparr>b_id = i, b_user_id = uid, b_match_id = m, b_stake = s,
                                 b_status = ''open'', b_payout = Some (Fin 0),
                                 b_created_at = now e\<rparr>],
              bets_id_seq := i\<rparr>)
         \<and> status_of r = 200 \<and> st = Some sv \<and> bind_numeric e sv = Some s
         \<and> jwt_id usr = Some uid \<and> user_by_id (users d) uid = Some u)"
  unfolding post_bets_place_def client_query_def Let_def
  by (auto split: option.splits)

text \<open>
  C5. Whatever the input and wherever the store fails, a call that does not answer 200
  leaves \<^verbatim>\<open>users\<close> and \<^verbatim>\<open>bets\<close> as they were; a call that answers 200 has debited the
  caller, whose balance is then the Number \<^verbatim>\<open>balance - Number(stake)\<close>, and added exactly
  one open bet of the caller with that stake. There is no outcome with one write and not
  the other.
\<close>

theorem place_bet_atomic:
  "(status_of (fst (post_bets_place e usr mid st d)) \<noteq> 200 \<longrightarrow>
      users (snd (post_bets_place e usr mid st d)) = users d \<and>
      bets (snd (post_bets_place e usr mid st d)) = bets d)
   \<and> (status_of (fst (post_bets_place e usr mid st d)) = 200 \<longrightarrow>
      (\<exists>u uid sv row. st = Some sv \<and> jwt_id usr = Some uid \<and> user_by_id (users d) uid = Some u \<and>
         users (snd (post_bets_place e usr mid st d)) =
           set_balance uid (num_sub (balance_or_0 u) (Number e sv)) (users d) \<and>
         user_by_id (users (snd (post_bets_place e usr mid st d))) uid =
           Some (u\<lparr>u_balance := Some (num_sub (balance_or_0 u) (Number e sv))\<rparr>) \<and>
         bets (snd (post_bets_place e usr mid st d)) = bets d @ [row] \<and>
         b_user_id row = uid \<and> bind_numeric e sv = Some (b_stake row) \<and> b_status row = ''open''))"
  using place_outcomes [of e usr mid st d]
  by (elim disjE exE conjE) (simp_all add: credited_user)

theorem place_bet_atomic_witness:
  "status_of (fst (post_bets_place (failing 9 5) player_identity (Some (VNum (Fin 1)))
                     (Some (VNum (Fin 30))) (ledger (Fin 100) (Fin 50)))) = 500 \<and>
   users (snd (post_bets_place (failing 9 5) player_identity (Some (VNum (Fin 1)))
                 (Some (VNum (Fin 30))) (ledger (Fin 100) (Fin 50)))) = users (ledger (Fin 100) (Fin 50)) \<and>
   bets (snd (post_bets_place (failing 9 5) player_identity (Some (VNum (Fin 1)))
                (Some (VNum (Fin 30))) (ledger (Fin 100) (Fin 50)))) = bets (ledger (Fin 100) (Fin 50)) \<and>
   status_of (fst (post_bets_place (quiet 9) player_identity (Some (VNum (Fin 1)))
                     (Some (VNum (Fin 30))) (ledger (Fin 100) (Fin 50)))) = 200 \<and>
   length (bets (snd (post_bets_place (quiet 9) player_identity (Some (VNum (Fin 1)))
                        (Some (VNum (Fin 30))) (ledger (Fin 100) (Fin 50))))) = 2 \<and>
   users (snd (post_bets_place (quiet 9) player_identity (Some (VNum (Fin 1)))
                 (Some (VNum (Fin 30))) (ledger (Fin 100) (Fin 50)))) =
     set_balance 2 (Fin 70) (users (ledger (Fin 100) (Fin 50)))"
proof -
  let ?d = "ledger (Fin 100) (Fin 50)"
  have failed: "status_of (fst (post_bets_place (failing 9 5) player_identity (Some (VNum (Fin 1)))
                                  (Some (VNum (Fin 30))) ?d)) = 500"
    by (simp add: handler_defs store_defs demo_defs)
  have served: "status_of (fst (post_bets_place (quiet 9) player_identity (Some (VNum (Fin 1)))
                                  (Some (VNum (Fin 30))) ?d)) = 200"
    by (simp add: handler_defs store_defs demo_defs Let_def)
  from place_bet_atomic [of "failing 9 5" player_identity "Some (VNum (Fin 1))"
                            "Some (VNum (Fin 30))" ?d] failed
  have rolled_back:
    "users (snd (post_bets_place (failing 9 5) player_identity (Some (VNum (Fin 1)))
                   (Some (VNum (Fin 30))) ?d)) = users ?d \<and>
     bets (snd (post_bets_place (failing 9 5) player_identity (Some (VNum (Fin 1)))
                  (Some (VNum (Fin 30))) ?d)) = bets ?d"
    by simp
  from place_bet_atomic [of "quiet 9" player_identity "Some (VNum (Fin 1))"
                            "Some (VNum (Fin 30))" ?d] served
  obtain u uid sv row where both:
    "Some (VNum (Fin 30)) = Some sv" "jwt_id player_identity = Some uid"
    "user_by_id (users ?d) uid = Some u"
    "users (snd (post_bets_place (quiet 9) player_identity (Some (VNum (Fin 1)))
                   (Some (VNum (Fin 30))) ?d)) =
       set_balance uid (num_sub (balance_or_0 u) (Number (quiet 9) sv)) (users ?d)"
    "bets (snd (post_bets_place (quiet 9) player_identity (Some (VNum (Fin 1)))
                  (Some (VNum (Fin 30))) ?d)) = bets ?d @ [row]"
    by auto
  have uid: "uid = 2" using both(2) by (simp add: player_identity_def)
  have u: "user_by_id (users ?d) 2 =
             Some \<lparr>u_id = 2, u_email = ''a@x.com'', u_password_hash = ''$2b$10$p'',
                   u_full_name = Some ''Ann'', u_created_at = 1, u_balance = Some (Fin 100),
                   u_is_admin = Some False\<rparr>"
    by (simp add: store_defs demo_defs)
  have diff: "num_sub (Fin 100) (Fin 30) = Fin 70" by (simp add: num_sub_def num_eval)
  from both u uid diff have
    "users (snd (post_bets_place (quiet 9) player_identity (Some (VNum (Fin 1)))
                   (Some (VNum (Fin 30))) ?d)) = set_balance 2 (Fin 70) (users ?d)"
    by (auto simp: balance_or_0_def)
  moreover from both(5) have
    "length (bets (snd (post_bets_place (quiet 9) player_identity (Some (VNum (Fin 1)))
                          (Some (VNum (Fin 30))) ?d))) = 2"
    by (simp add: ledger_def)
  ultimately show ?thesis using failed served rolled_back by simp
qed

section \<open>Balance arithmetic\<close>

text \<open>
  C7, as the code has it. The three transactions compute the new balance with the
  operators \<^verbatim>\<open>+\<close> and \<^verbatim>\<open>-\<close> on Numbers. For a finite balance and a finite amount the balance
  written is the exact sum (deposit approval, payout) or difference (bet placement)
  rounded to the nearest double, ties to even. Rounding changes nothing when the exact
  result is a double, and every integer of magnitude at most \<open>2\<^sup>5\<^sup>3\<close> is one.
\<close>

theorem balance_arithmetic_is_double_precision:
  assumes quiet: "fault e = None"
  shows
   "(adminMiddleware e usr d = None \<and> num_truthy n \<and> pg_int4 n = Some i \<and>
     deposit_by_id (deposits d) i = Some dep \<and> d_status dep = ''pending'' \<and> d_amount dep = Fin y \<and>
     d_user_id dep = Some ow \<and> user_by_id (users d) ow = Some u \<and> u_balance u = Some (Fin x)
       \<longrightarrow> user_by_id (users (snd (post_deposits_approve e usr (Some (VNum n)) d))) ow =
             Some (u\<lparr>u_balance := Some (rnd (x + y))\<rparr>))
  \<and> (0 < s \<and> s \<le> x' \<and> num_truthy mid \<and> pg_int4 mid = Some m \<and>
     match_by_id (matches d) m = Some mt \<and> jwt_id plr = Some pid \<and>
     user_by_id (users d) pid = Some u' \<and> u_balance u' = Some (Fin x') \<and>
     nextval (bets_id_seq d) = Some j \<and> bet_by_id (bets d) j = None
       \<longrightarrow> user_by_id (users (snd (post_bets_place e plr (Some (VNum mid)) (Some (VNum (Fin s))) d))) pid =
             Some (u'\<lparr>u_balance := Some (rnd (x' - s))\<rparr>))
  \<and> (num_truthy bid \<and> pg_int4 bid = Some k \<and> a \<noteq> 0 \<and>
     bet_by_id (bets d) k = Some bet \<and> b_status bet = ''open'' \<and>
     user_by_id (users d) (b_user_id bet) = Some w \<and> u_balance w = Some (Fin z)
       \<longrightarrow> user_by_id (users (snd (post_bets_payout e (Some (VNum bid)) (Some (VNum (Fin a))) d))) (b_user_id bet) =
             Some (w\<lparr>u_balance := Some (rnd (z + a))\<rparr>))
  \<and> (\<forall>r. is_double r \<longrightarrow> rnd r = Fin r)
  \<and> (\<forall>c::int. \<bar>c\<bar> \<le> 2 ^ 53 \<longrightarrow> is_double (of_int c))"
proof (intro conjI impI allI)
  assume h: "adminMiddleware e usr d = None \<and> num_truthy n \<and> pg_int4 n = Some i \<and>
     deposit_by_id (deposits d) i = Some dep \<and> d_status dep = ''pending'' \<and> d_amount dep = Fin y \<and>
     d_user_id dep = Some ow \<and> user_by_id (users d) ow = Some u \<and> u_balance u = Some (Fin x)"
  then have adm: "references_user (users d) (jwt_id usr)"
    using admin_has_row by blast
  from h have pending: "d_status dep \<noteq> ''approved''" by simp
  from h approve_commits [OF quiet _ _ _ pending adm, of n i]
  show "user_by_id (users (snd (post_deposits_approve e usr (Some (VNum n)) d))) ow =
             Some (u\<lparr>u_balance := Some (rnd (x + y))\<rparr>)"
    by (simp add: balance_or_0_def credited_user user_where_id_def set_balance_where_id_def)
next
  assume h: "0 < s \<and> s \<le> x' \<and> num_truthy mid \<and> pg_int4 mid = Some m \<and>
     match_by_id (matches d) m = Some mt \<and> jwt_id plr = Some pid \<and>
     user_by_id (users d) pid = Some u' \<and> u_balance u' = Some (Fin x') \<and>
     nextval (bets_id_seq d) = Some j \<and> bet_by_id (bets d) j = None"
  then have bal: "balance_or_0 u' = Fin x'" by (simp add: balance_or_0_def)
  from h bal have cov: "\<not> num_less (balance_or_0 u') (Fin s)" by simp
  from h have pos: "num_truthy (Fin s)" "\<not> num_le (Fin s) (Fin 0)" by simp_all
  from h place_commits [OF quiet _ pos _ _ cov, of mid plr pid d m mt j] bal
  show "user_by_id (users (snd (post_bets_place e plr (Some (VNum mid)) (Some (VNum (Fin s))) d))) pid =
             Some (u'\<lparr>u_balance := Some (rnd (x' - s))\<rparr>)"
    by (simp add: credited_user num_sub_Fin)
next
  assume h: "num_truthy bid \<and> pg_int4 bid = Some k \<and> a \<noteq> 0 \<and>
     bet_by_id (bets d) k = Some bet \<and> b_status bet = ''open'' \<and>
     user_by_id (users d) (b_user_id bet) = Some w \<and> u_balance w = Some (Fin z)"
  then have unsettled: "b_status bet \<noteq> ''settled''" by simp
  from h have am: "num_truthy (Fin a)" by simp
  from h payout_commits [OF quiet _ am _ _ unsettled, of bid k d w]
  show "user_by_id (users (snd (post_bets_payout e (Some (VNum bid)) (Some (VNum (Fin a))) d))) (b_user_id bet) =
             Some (w\<lparr>u_balance := Some (rnd (z + a))\<rparr>)"
    by (simp add: balance_or_0_def credited_user)
next
  fix r assume "is_double r"
  then show "rnd r = Fin r" by (rule rnd_exact)
next
  fix c :: int assume "\<bar>c\<bar> \<le> 2 ^ 53"
  then show "is_double (of_int c)" by (rule int_is_double)
qed

theorem balance_arithmetic_is_double_precision_witness:
  "fault (quiet 9) = None \<and>
   map_option u_balance
     (user_by_id (users (snd (post_deposits_approve (quiet 9) admin_identity (Some (VNum (Fin 1)))
                                (ledger (Fin 100) (Fin 50))))) 2) = Some (Some (Fin 150)) \<and>
   map_option u_balance
     (user_by_id (users (snd (post_bets_place (quiet 9) player_identity (Some (VNum (Fin 1))) (Some (VNum (Fin 30)))
                                (ledger (Fin 100) (Fin 50))))) 2) = Some (Some (Fin 70)) \<and>
   map_option u_balance
     (user_by_id (users (snd (post_bets_payout (quiet 9) (Some (VNum (Fin 1))) (Some (VNum (Fin 20)))
                                (ledger (Fin 100) (Fin 50))))) 2) = Some (Some (Fin 120)) \<and>
   is_double 150 \<and> rnd 150 = Fin 150"
proof -
  let ?d = "ledger (Fin 100) (Fin 50)"
  let ?dep = "\<lparr>d_id = 1, d_user_id = Some 2, d_amount = Fin 50, d_status = ''pending'',
               d_created_at = 4, d_approved_by = None, d_approved_at = None\<rparr>"
  let ?u = "\<lparr>u_id = 2, u_email = ''a@x.com'', u_password_hash = ''$2b$10$p'',
             u_full_name = Some ''Ann'', u_created_at = 1, u_balance = Some (Fin 100),
             u_is_admin = Some False\<rparr>"
  let ?m = "\<lparr>m_id = 1, m_home = ''Gor'', m_away = ''AFC'', m_odds = Fin 2, m_created_at = 2\<rparr>"
  let ?bet = "\<lparr>b_id = 1, b_user_id = 2, b_match_id = 1, b_stake = Fin 10, b_status = ''open'',
               b_payout = Some (Fin 0), b_created_at = 3\<rparr>"
  have q: "fault (quiet 9) = None" by (simp add: quiet_def)
  note t = balance_arithmetic_is_double_precision
             [OF q, where usr = admin_identity and d = ?d and n = "Fin 1" and i = 1 and dep = ?dep
               and y = 50 and ow = 2 and u = ?u and x = 100 and s = 30 and x' = 100
               and mid = "Fin 1" and m = 1 and mt = ?m and plr = player_identity and pid = 2
               and u' = ?u and j = 2
               and bid = "Fin 1" and k = 1 and a = 20 and bet = ?bet and w = ?u and z = 100]
  have a1: "adminMiddleware (quiet 9) admin_identity ?d = None \<and> num_truthy (Fin 1) \<and>
            pg_int4 (Fin 1) = Some 1 \<and> deposit_by_id (deposits ?d) 1 = Some ?dep \<and>
            d_status ?dep = ''pending'' \<and> d_amount ?dep = Fin 50 \<and> d_user_id ?dep = Some 2 \<and>
            user_by_id (users ?d) 2 = Some ?u \<and> u_balance ?u = Some (Fin 100)"
    by (simp add: handler_defs store_defs demo_defs)
  have a2: "(0::rat) < 30 \<and> (30::rat) \<le> 100 \<and> num_truthy (Fin 1) \<and> pg_int4 (Fin 1) = Some 1 \<and>
            match_by_id (matches ?d) 1 = Some ?m \<and> jwt_id player_identity = Some 2 \<and>
            user_by_id (users ?d) 2 = Some ?u \<and> u_balance ?u = Some (Fin 100) \<and>
            nextval (bets_id_seq ?d) = Some 2 \<and> bet_by_id (bets ?d) 2 = None"
    by (simp add: store_defs demo_defs)
  have a3: "num_truthy (Fin 1) \<and> pg_int4 (Fin 1) = Some 1 \<and> (20::rat) \<noteq> 0 \<and>
            bet_by_id (bets ?d) 1 = Some ?bet \<and> b_status ?bet = ''open'' \<and>
            user_by_id (users ?d) (b_user_id ?bet) = Some ?u \<and> u_balance ?u = Some (Fin 100)"
    by (simp add: store_defs demo_defs)
  from t a1 have r1: "user_by_id (users (snd (post_deposits_approve (quiet 9) admin_identity
                         (Some (VNum (Fin 1))) ?d))) 2 = Some (?u\<lparr>u_balance := Some (rnd (100 + 50))\<rparr>)"
    by blast
  from t a2 have r2: "user_by_id (users (snd (post_bets_place (quiet 9) player_identity (Some (VNum (Fin 1)))
                         (Some (VNum (Fin 30))) ?d))) 2 = Some (?u\<lparr>u_balance := Some (rnd (100 - 30))\<rparr>)"
    by blast
  from t a3 have r3: "user_by_id (users (snd (post_bets_payout (quiet 9) (Some (VNum (Fin 1))) (Some (VNum (Fin 20))) ?d)))
                         (b_user_id ?bet) = Some (?u\<lparr>u_balance := Some (rnd (100 + 20))\<rparr>)"
    by blast
  from t have ints: "\<forall>c::int. \<bar>c\<bar> \<le> 2 ^ 53 \<longrightarrow> is_double (of_int c)" by blast
  have "\<bar>150::int\<bar> \<le> 2 ^ 53" by simp
  with ints have "is_double (of_int (150::int))" by blast
  then have dbl: "is_double 150" by simp
  from t have "\<forall>r. is_double r \<longrightarrow> rnd r = Fin r" by blast
  with dbl have e150: "rnd 150 = Fin 150" by blast
  have e70: "rnd 70 = Fin 70" and e120: "rnd 120 = Fin 120" by (simp_all add: num_eval)
  from r1 r2 r3 q dbl e150 e70 e120 show ?thesis
    by (simp add: player_identity_def)
qed

text \<open>
  Results that are not the exact ones: \<open>2\<^sup>5\<^sup>3 + 1\<close> credited by an approval is \<open>2\<^sup>5\<^sup>3\<close>,
  \<open>2\<^sup>5\<^sup>3 + 2 - 1\<close> debited by a bet is \<open>2\<^sup>5\<^sup>3\<close>, and \<^verbatim>\<open>0.1 + 0.2\<close> credited by a payout is
  \<^verbatim>\<open>0.30000000000000004\<close>, another double than \<^verbatim>\<open>0.3\<close>.
\<close>

theorem balance_arithmetic_counterexample:
  "map_option u_balance
     (user_by_id (users (snd (post_deposits_approve (quiet 9) admin_identity (Some (VNum (Fin 1)))
                                (ledger (Fin 9007199254740992) (Fin 1))))) 2)
     = Some (Some (Fin 9007199254740992)) \<and>
   map_option u_balance
     (user_by_id (users (snd (post_bets_place (quiet 9) player_identity (Some (VNum (Fin 1))) (Some (VNum (Fin 1)))
                                (ledger (Fin 9007199254740994) (Fin 50))))) 2)
     = Some (Some (Fin 9007199254740992)) \<and>
   map_option u_balance
     (user_by_id (users (snd (post_bets_payout (quiet 9) (Some (VNum (Fin 1))) (Some (VNum (rnd (2 / 10))))
                                (ledger (rnd (1 / 10)) (Fin 50))))) 2)
     = Some (Some (Fin (1351079888211149 / 4503599627370496))) \<and>
   rnd (3 / 10) = Fin (5404319552844595 / 18014398509481984) \<and>
   (1351079888211149 / 4503599627370496 :: rat) \<noteq> 5404319552844595 / 18014398509481984"
  by (simp add: handler_defs store_defs demo_defs num_eval num_sub_def)

section \<open>Non-negative balances\<close>

text \<open>
  C1 fails on the code. \<^verbatim>\<open>POST /api/bets/payout\<close> checks the amount with \<^verbatim>\<open>!amount\<close> only,
  where the two other money routes also reject \<^verbatim>\<open>Number(x) <= 0\<close>. In the session
  \<open>negative_payout_session\<close>, served from the empty database through the routes alone, the
  player ends with the balance \<open>-5\<close>.
\<close>

theorem negative_payout_makes_balance_negative:
  "map_option u_balance
     (user_by_id (users (serve_all demo_lib demo_config negative_payout_session initDb)) 2)
     = Some (Some (Fin (- 5))) \<and>
   num_less (Fin (- 5)) (Fin 0)"
  by (simp add: negative_payout_session_def handler_defs store_defs demo_defs num_eval num_sub_def)

section \<open>Matches\<close>

lemma authed_matches:
  assumes "\<And>usr. matches (snd (handler usr)) = matches d"
  shows "matches (snd (authed l h d handler)) = matches d"
  using assms by (simp add: authed_def split: sum.splits)

lemma admin_only_matches:
  assumes "\<And>usr. matches (snd (handler usr)) = matches d"
  shows "matches (snd (admin_only l e h d handler)) = matches d"
  unfolding admin_only_def using assms
  by (intro authed_matches) (simp split: option.splits)

lemma register_matches: "matches (snd (post_register l cfg e em pw fn d)) = matches d"
  by (auto simp: post_register_def Let_def split: option.splits)

lemma login_matches: "matches (snd (post_login l e em pw d)) = matches d"
  by (auto simp: post_login_def Let_def split: option.splits)

lemma me_matches: "matches (snd (get_me e usr d)) = matches d"
  by (auto simp: get_me_def split: option.splits)

lemma request_matches: "matches (snd (post_deposits_request e usr am d)) = matches d"
  by (auto simp: post_deposits_request_def Let_def split: option.splits)

lemma approve_matches: "matches (snd (post_deposits_approve e usr n d)) = matches d"
  by (auto simp: post_deposits_approve_def client_query_def Let_def split: option.splits)

lemma place_matches: "matches (snd (post_bets_place e usr mid st d)) = matches d"
  using place_outcomes [of e usr mid st d] by (elim disjE exE conjE) simp_all

lemma payout_matches: "matches (snd (post_bets_payout e bid am d)) = matches d"
  by (auto simp: post_bets_payout_def client_query_def Let_def split: option.splits)

lemma create_match_appends:
  "\<exists>new. matches (snd (post_matches e hm aw od d)) = matches d @ new"
  by (auto simp: post_matches_def Let_def split: option.splits)

lemma admin_only_appends:
  assumes "\<And>usr. \<exists>new. matches (snd (handler usr)) = matches d @ new"
  shows "\<exists>new. matches (snd (admin_only l e h d handler)) = matches d @ new"
  using assms by (simp add: admin_only_def authed_def split: sum.splits option.splits)

lemma serve_keeps_matches:
  assumes "\<forall>hm aw od. req \<noteq> PostMatches hm aw od"
  shows "matches (snd (serve l cfg e h req d)) = matches d"
  using assms
  by (cases req)
     (simp_all add: register_matches login_matches me_matches request_matches approve_matches
        place_matches payout_matches authed_matches admin_only_matches
        get_matches_def get_bets_my_def get_admin_deposits_def get_admin_users_def)

lemma serve_appends_matches:
  "\<exists>new. matches (snd (serve l cfg e h req d)) = matches d @ new"
proof (cases "\<forall>hm aw od. req \<noteq> PostMatches hm aw od")
  case True
  then show ?thesis by (simp add: serve_keeps_matches)
next
  case False
  then obtain hm aw od where "req = PostMatches hm aw od" by blast
  then show ?thesis by (simp add: admin_only_appends create_match_appends)
qed

lemma serve_all_appends_matches:
  "\<exists>new. matches (serve_all l cfg rs d) = matches d @ new"
proof (induction rs arbitrary: d)
  case Nil
  then show ?case by simp
next
  case (Cons r rs)
  obtain e h req where r: "r = (e, h, req)" by (cases r)
  from serve_appends_matches [of l cfg e h req d]
  obtain new1 where 1: "matches (snd (serve l cfg e h req d)) = matches d @ new1" by blast
  from Cons.IH [of "snd (serve l cfg e h req d)"]
  obtain new2 where "matches (serve_all l cfg rs (snd (serve l cfg e h req d))) =
                       matches (snd (serve l cfg e h req d)) @ new2" by blast
  with 1 r show ?case by simp
qed

lemma match_by_id_append:
  "match_by_id ms i = Some m \<Longrightarrow> match_by_id (ms @ new) i = Some m"
  unfolding match_by_id_def by (induction ms) (auto split: if_splits)

text \<open>
  C8. A request other than \<^verbatim>\<open>POST /api/matches\<close> leaves the table \<^verbatim>\<open>matches\<close> as it is, and
  any request, that one included, at most adds rows at the end. So over any sequence of
  requests the rows present stay, with all their fields, and a match found by its id is
  found unchanged afterwards.
\<close>

theorem matches_are_immutable:
  "((\<forall>hm aw od. req \<noteq> PostMatches hm aw od) \<longrightarrow>
      matches (snd (serve l cfg e h req d)) = matches d)
   \<and> (\<exists>new. matches (snd (serve l cfg e h req d)) = matches d @ new)
   \<and> (\<exists>new. matches (serve_all l cfg rs d) = matches d @ new)
   \<and> (match_by_id (matches d) i = Some m \<longrightarrow>
        match_by_id (matches (serve_all l cfg rs d)) i = Some m)"
proof -
  from serve_all_appends_matches [of l cfg rs d]
  obtain new where new: "matches (serve_all l cfg rs d) = matches d @ new" by blast
  then have "match_by_id (matches d) i = Some m \<longrightarrow>
               match_by_id (matches (serve_all l cfg rs d)) i = Some m"
    by (simp add: match_by_id_append)
  with new serve_keeps_matches [of req l cfg e h d] serve_appends_matches [of l cfg e h req d]
  show ?thesis by blast
qed

theorem matches_are_immutable_witness:
  "(\<forall>hm aw od. PostBetsPayout (Some (VNum (Fin 1))) (Some (VNum (Fin 20))) \<noteq> PostMatches hm aw od) \<and>
   matches (snd (serve demo_lib demo_config (quiet 9) (Some ''Bearer A'')
                   (PostBetsPayout (Some (VNum (Fin 1))) (Some (VNum (Fin 20)))) (ledger (Fin 100) (Fin 50))))
     = matches (ledger (Fin 100) (Fin 50)) \<and>
   match_by_id (matches (ledger (Fin 100) (Fin 50))) 1 =
     Some \<lparr>m_id = 1, m_home = ''Gor'', m_away = ''AFC'', m_odds = Fin 2, m_created_at = 2\<rparr> \<and>
   match_by_id (matches (serve_all demo_lib demo_config negative_payout_session
                           (ledger (Fin 100) (Fin 50)))) 1 =
     Some \<lparr>m_id = 1, m_home = ''Gor'', m_away = ''AFC'', m_odds = Fin 2, m_created_at = 2\<rparr>"
proof -
  have m: "match_by_id (matches (ledger (Fin 100) (Fin 50))) 1 =
     Some \<lparr>m_id = 1, m_home = ''Gor'', m_away = ''AFC'', m_odds = Fin 2, m_created_at = 2\<rparr>"
    by (simp add: store_defs demo_defs)
  from matches_are_immutable
         [of "PostBetsPayout (Some (VNum (Fin 1))) (Some (VNum (Fin 20)))" demo_lib demo_config "quiet 9"
             "Some ''Bearer A''" "ledger (Fin 100) (Fin 50)" negative_payout_session 1
             "\<lparr>m_id = 1, m_home = ''Gor'', m_away = ''AFC'', m_odds = Fin 2, m_created_at = 2\<rparr>"]
       m
  show ?thesis by simp
qed

section \<open>The password hash in responses\<close>

lemma find_in_set: "find P xs = Some x \<Longrightarrow> x \<in> set xs"
  by (induction xs) (auto split: if_splits)

lemma keys_error_json: "json_keys (JObj [(''error'', JStr msg)]) = [''error'']"
  by simp

lemma register_body_keys:
  "json_keys (JObj [(''user'', JObj (user_columns u)), (''token'', createToken (user_columns u))]) =
     [''user'', ''token'', ''id'', ''email'', ''full_name'', ''balance'', ''is_admin'', ''id'', ''email'']"
  by (cases "u_full_name u"; cases "u_balance u"; cases "u_is_admin u")
     (simp_all add: user_columns_def createToken_def field_def)

lemma login_body_keys:
  "json_keys (JObj [(''user'', JObj (delete_field ''password_hash'' (login_columns u))),
                    (''token'', createToken (delete_field ''password_hash'' (login_columns u)))]) =
     [''user'', ''token'', ''id'', ''email'', ''full_name'', ''balance'', ''is_admin'', ''id'', ''email'']"
  by (cases "u_full_name u"; cases "u_balance u"; cases "u_is_admin u")
     (simp_all add: login_columns_def delete_field_def createToken_def field_def)

lemma me_body_keys:
  "json_keys (JObj [(''user'', JObj (user_columns u))]) =
     [''user'', ''id'', ''email'', ''full_name'', ''balance'', ''is_admin'']"
  by (cases "u_full_name u"; cases "u_balance u"; cases "u_is_admin u")
     (simp_all add: user_columns_def)

lemma register_body_strings:
  "set (json_strings (JObj [(''user'', JObj (user_columns u)),
                            (''token'', createToken (user_columns u))])) =
     {u_email u} \<union> set_option (u_full_name u)"
  by (cases "u_full_name u"; cases "u_balance u"; cases "u_is_admin u")
     (auto simp: user_columns_def createToken_def field_def)

lemma login_body_strings:
  "set (json_strings (JObj [(''user'', JObj (delete_field ''password_hash'' (login_columns u))),
                            (''token'', createToken (delete_field ''password_hash'' (login_columns u)))])) =
     {u_email u} \<union> set_option (u_full_name u)"
  by (cases "u_full_name u"; cases "u_balance u"; cases "u_is_admin u")
     (auto simp: login_columns_def delete_field_def createToken_def field_def)

lemma me_body_strings:
  "set (json_strings (JObj [(''user'', JObj (user_columns u))])) =
     {u_email u} \<union> set_option (u_full_name u)"
  by (cases "u_full_name u"; cases "u_balance u"; cases "u_is_admin u")
     (auto simp: user_columns_def)

lemmas body_facts = keys_error_json register_body_keys login_body_keys me_body_keys
  register_body_strings login_body_strings me_body_strings

lemmas response_defs = error_json_def server_error_def

lemma register_hides_hash:
  assumes "post_register l cfg e em pw fn d = (Json code body, d')"
  shows "''password_hash'' \<notin> set (json_keys body) \<and>
         (code = 200 \<longrightarrow> (\<forall>s \<in> set (json_strings body).
                             \<exists>u \<in> set (users d'). s = u_email u \<or> u_full_name u = Some s))"
  using assms unfolding post_register_def Let_def response_defs
  by (auto simp: body_facts simp del: json_keys.simps json_strings.simps
           split: option.splits if_splits)

lemma login_hides_hash:
  assumes "post_login l e em pw d = (Json code body, d')"
  shows "''password_hash'' \<notin> set (json_keys body) \<and>
         (code = 200 \<longrightarrow> (\<forall>s \<in> set (json_strings body).
                             \<exists>u \<in> set (users d'). s = u_email u \<or> u_full_name u = Some s))"
  using assms unfolding post_login_def Let_def response_defs user_by_email_def
  by (auto simp: body_facts simp del: json_keys.simps json_strings.simps
           dest: find_in_set split: option.splits if_splits)

lemma me_hides_hash:
  assumes "authed l h d (\<lambda>usr. get_me e usr d) = (Json code body, d')"
  shows "''password_hash'' \<notin> set (json_keys body) \<and>
         (code = 200 \<longrightarrow> (\<forall>s \<in> set (json_strings body).
                             \<exists>u \<in> set (users d'). s = u_email u \<or> u_full_name u = Some s))"
  using assms unfolding authed_def authMiddleware_def get_me_def response_defs user_where_id_def
    user_by_id_def
  by (auto simp: body_facts simp del: json_keys.simps json_strings.simps
           dest: find_in_set split: option.splits if_splits sum.splits list.splits)

text \<open>
  C9. Whatever \<^verbatim>\<open>POST /api/register\<close>, \<^verbatim>\<open>POST /api/login\<close> and \<^verbatim>\<open>GET /api/me\<close> answer, the
  body has no field named \<^verbatim>\<open>password_hash\<close> at any depth, the token payload included; and
  in a 200 answer every string of the body is the email or the full name of a row of
  \<^verbatim>\<open>users\<close>: the column \<^verbatim>\<open>password_hash\<close> is not a source of any value.
\<close>

theorem account_responses_hide_password_hash:
  assumes route: "req = PostRegister em pw fn \<or> req = PostLogin em pw \<or> req = GetMe"
    and resp: "serve l cfg e h req d = (Json code body, d')"
  shows "''password_hash'' \<notin> set (json_keys body) \<and>
         (code = 200 \<longrightarrow> (\<forall>s \<in> set (json_strings body).
                             \<exists>u \<in> set (users d'). s = u_email u \<or> u_full_name u = Some s))"
  using route resp
  by (elim disjE) (simp_all add: register_hides_hash login_hides_hash me_hides_hash)

theorem account_responses_hide_password_hash_witness:
  "serve demo_lib demo_config (quiet 9) None (PostLogin (Some ''a@x.com'') (Some ''p''))
     (ledger (Fin 100) (Fin 50)) =
     (Json 200 (JObj [(''user'', JObj [(''id'', JNum (Fin 2)), (''email'', JStr ''a@x.com''),
                                       (''full_name'', JStr ''Ann''), (''balance'', JNumeric (Fin 100)),
                                       (''is_admin'', JBool False)]),
                      (''token'', JToken (JObj [(''id'', JNum (Fin 2)), (''email'', JStr ''a@x.com'')]))]),
      ledger (Fin 100) (Fin 50)) \<and>
   ''password_hash'' \<notin> set (json_keys
      (JObj [(''user'', JObj [(''id'', JNum (Fin 2)), (''email'', JStr ''a@x.com''),
                              (''full_name'', JStr ''Ann''), (''balance'', JNumeric (Fin 100)),
                              (''is_admin'', JBool False)]),
             (''token'', JToken (JObj [(''id'', JNum (Fin 2)), (''email'', JStr ''a@x.com'')]))]))"
proof -
  have run: "serve demo_lib demo_config (quiet 9) None (PostLogin (Some ''a@x.com'') (Some ''p''))
     (ledger (Fin 100) (Fin 50)) =
     (Json 200 (JObj [(''user'', JObj [(''id'', JNum (Fin 2)), (''email'', JStr ''a@x.com''),
                                       (''full_name'', JStr ''Ann''), (''balance'', JNumeric (Fin 100)),
                                       (''is_admin'', JBool False)]),
                      (''token'', JToken (JObj [(''id'', JNum (Fin 2)), (''email'', JStr ''a@x.com'')]))]),
      ledger (Fin 100) (Fin 50))"
    by (simp add: handler_defs store_defs demo_defs login_columns_def delete_field_def
          createToken_def field_def)
  have route: "PostLogin (Some ''a@x.com'') (Some ''p'') = PostRegister (Some ''a@x.com'') (Some ''p'') None
             \<or> PostLogin (Some ''a@x.com'') (Some ''p'') = PostLogin (Some ''a@x.com'') (Some ''p'')
             \<or> PostLogin (Some ''a@x.com'') (Some ''p'') = GetMe"
    by simp
  from account_responses_hide_password_hash [OF route run] run show ?thesis by blast
qed

end
